theory Spec2Isabelle
  imports Main "HOL-Library.Word" "HOL-Library.Sublist"
begin

section \<open>Data model of storage/storage.go\<close>

text \<open>
  Sizes and partition numbers are Go \<^verbatim>\<open>uint64\<close>: 64-bit words, so that sums and
  differences wrap around as they do in the program.
\<close>

type_synonym u64 = "64 word"

text \<open>
  A Go pointer is an index into the arena of objects of its type (see the store below);
  a pointer that may be \<^verbatim>\<open>nil\<close> where the code tests or assigns \<^verbatim>\<open>nil\<close> is an option.
\<close>

type_synonym ref = nat

text \<open>
  \<^verbatim>\<open>BlockDeviceType\<close>: the first eight constants of the \<^verbatim>\<open>const\<close> block, numbered by
  \<^verbatim>\<open>iota\<close> from 0, so that the zero value of the type is \<^verbatim>\<open>BlockDeviceTypeDisk\<close>.
\<close>

datatype BlockDeviceType =
    BlockDeviceTypeDisk
  | BlockDeviceTypePart
  | BlockDeviceTypeRom
  | BlockDeviceTypeLVM2Group
  | BlockDeviceTypeLVM2Volume
  | BlockDeviceTypeCrypt
  | BlockDeviceTypeLoop
  | BlockDeviceTypeUnknown

text \<open>
  \<^verbatim>\<open>BlockDeviceState\<close>: the state constants stand in the same \<^verbatim>\<open>const\<close> block, where
  \<^verbatim>\<open>iota\<close> has reached 8, so none of them is the zero value of the type; the zero value
  (what a freshly allocated \<^verbatim>\<open>BlockDevice\<close> holds) is a constructor of its own.
\<close>

datatype BlockDeviceState =
    BlockDeviceStateZero
  | BlockDeviceStateUnknown
  | BlockDeviceStateRunning
  | BlockDeviceStateLive
  | BlockDeviceStateConnected

text \<open>
  \<^verbatim>\<open>PartedPartition\<close>, one row of a partition table. Its \<^verbatim>\<open>Size\<close> and \<^verbatim>\<open>Name\<close> fields are
  written \<open>PartSize\<close> and \<open>PartName\<close> here, the plain names being fields of
  \<^verbatim>\<open>BlockDevice\<close> too.
\<close>

record PartedPartition =
  Number :: u64
  Start :: u64
  End :: u64
  PartSize :: u64
  FileSystem :: string
  PartName :: string
  Flags :: string

text \<open>
  The fields of \<^verbatim>\<open>BlockDevice\<close> other than the links to other devices. \<^verbatim>\<open>PartTable\<close> is a
  slice of pointers to rows: the list of the rows' addresses. \<^verbatim>\<open>removedParts\<close> is a slice
  of numbers. A slice is the list of its elements: two slices that hold the same
  pointers point to the same objects, and that they may also share a backing array is
  not modelled, since no function of these files writes an element of a slice in place.
\<close>

record BlockDeviceFields =
  Name :: string
  MappedName :: string
  Model :: string
  MajorMinor :: string
  PtType :: string
  FsType :: string
  UUID :: string
  Serial :: string
  MountPoint :: string
  Label :: string
  Size :: u64
  Type :: BlockDeviceType
  State :: BlockDeviceState
  ReadOnly :: bool
  RemovableDevice :: bool
  UserDefined :: bool
  MakePartition :: bool
  FormatPartition :: bool
  Options :: string
  available :: bool
  partition :: u64
  PartTable :: "ref list"
  removedParts :: "u64 list"

text \<open>
  A \<^verbatim>\<open>BlockDevice\<close> object as it lies in memory: the fields above, the slice of pointers
  to its children and the pointer to its parent (\<open>None\<close> is \<^verbatim>\<open>nil\<close>).
\<close>

record BlockDevice = BlockDeviceFields +
  Children :: "ref list"
  Parent :: "ref option"

text \<open>
  The same device read as a value, for the functions that only read a device and the
  devices below it and never compare or assign pointers: the fields of the node and the
  devices its \<^verbatim>\<open>Children\<close> point to, in order.
\<close>

datatype BlockDeviceTree = Device (node: BlockDeviceFields) (children: "BlockDeviceTree list")

text \<open>
  An \<^verbatim>\<open>error\<close> value is the message it was built with (the text that \<^verbatim>\<open>errors.Errorf\<close>
  formats); \<open>None\<close> is a \<^verbatim>\<open>nil\<close> error.
\<close>

type_synonym error = string

section \<open>Validate\<close>

definition FsTypeNotSwap :: "BlockDeviceTree \<Rightarrow> bool" where
  "FsTypeNotSwap bd = (FsType (node bd) \<noteq> ''swap'')"

text \<open>
  The loop of \<^verbatim>\<open>Validate\<close> over \<^verbatim>\<open>bd.Children\<close>, with the three flags it sets as
  accumulators. It returns the error of the first child at which the loop returns, or
  the flags after the last child.
\<close>

fun Validate_loop ::
  "BlockDeviceTree \<Rightarrow> BlockDeviceTree list \<Rightarrow> bool \<times> bool \<times> bool \<Rightarrow> error + (bool \<times> bool \<times> bool)" where
  "Validate_loop bd [] flags = Inr flags"
| "Validate_loop bd (ch # chs) (bootPartition, rootPartition, encrypted) =
    (let isBoot = (FsType (node ch) = ''vfat'' \<and> MountPoint (node ch) = ''/boot'') in
     if isBoot \<and> Type (node ch) = BlockDeviceTypeCrypt
     then Inl ''Encryption of /boot is not supported''
     else
       let bootPartition = (bootPartition \<or> isBoot);
           rootPartition = (rootPartition \<or> MountPoint (node ch) = ''/'');
           encrypted = (encrypted \<or> (Type (node ch) = BlockDeviceTypeCrypt \<and> FsTypeNotSwap ch))
       in if Type (node bd) \<noteq> BlockDeviceTypeDisk \<and> Size (node bd) = 0 \<and> Size (node ch) = 0
          then Inl ''Both image size and partition size cannot be 0''
          else Validate_loop bd chs (bootPartition, rootPartition, encrypted))"

definition Validate :: "BlockDeviceTree \<Rightarrow> bool \<Rightarrow> string \<Rightarrow> error option" where
  "Validate bd legacyBios cryptPass =
    (case Validate_loop bd (children bd) (False, False, False) of
       Inl err \<Rightarrow> Some err
     | Inr (bootPartition, rootPartition, encrypted) \<Rightarrow>
         if \<not> bootPartition \<and> \<not> legacyBios then Some ''Could not find a suitable EFI partition''
         else if \<not> rootPartition then Some ''Could not find a root partition''
         else if encrypted \<and> cryptPass = '''' then Some ''Encrypted file system enabled, but missing passphase''
         else None)"

text \<open>The five conditions of the specification, as predicates on the device.\<close>

definition isBootChild :: "BlockDeviceTree \<Rightarrow> bool" where
  "isBootChild ch = (FsType (node ch) = ''vfat'' \<and> MountPoint (node ch) = ''/boot'')"

definition noBootChild :: "BlockDeviceTree \<Rightarrow> bool" where
  "noBootChild bd = (\<forall>ch \<in> set (children bd). \<not> isBootChild ch)"

definition cryptBootChild :: "BlockDeviceTree \<Rightarrow> bool" where
  "cryptBootChild bd = (\<exists>ch \<in> set (children bd). isBootChild ch \<and> Type (node ch) = BlockDeviceTypeCrypt)"

definition noRootChild :: "BlockDeviceTree \<Rightarrow> bool" where
  "noRootChild bd = (\<forall>ch \<in> set (children bd). MountPoint (node ch) \<noteq> ''/'')"

definition encryptedChild :: "BlockDeviceTree \<Rightarrow> bool" where
  "encryptedChild bd =
     (\<exists>ch \<in> set (children bd). Type (node ch) = BlockDeviceTypeCrypt \<and> FsType (node ch) \<noteq> ''swap'')"

definition noCryptChild :: "BlockDeviceTree \<Rightarrow> bool" where
  "noCryptChild bd = (\<forall>ch \<in> set (children bd). Type (node ch) \<noteq> BlockDeviceTypeCrypt)"

definition ambiguousSize :: "BlockDeviceTree \<Rightarrow> bool" where
  "ambiguousSize bd =
     (Type (node bd) \<noteq> BlockDeviceTypeDisk \<and> Size (node bd) = 0 \<and>
      (\<exists>ch \<in> set (children bd). Size (node ch) = 0))"

section \<open>DiskSize\<close>

text \<open>\<^verbatim>\<open>fmt.Sprintf("%d", n)\<close> for an unsigned number: its decimal digits.\<close>

fun Sprintf_d :: "nat \<Rightarrow> string" where
  "Sprintf_d n =
     (if n < 10 then [''0123456789'' ! n]
      else Sprintf_d (n div 10) @ [''0123456789'' ! (n mod 10)])"

declare Sprintf_d.simps [simp del]

text \<open>
  \<^verbatim>\<open>DiskSize\<close> and its loop over the children, whose accumulator is \<^verbatim>\<open>childSize\<close>. A child
  that has children of its own contributes its \<^verbatim>\<open>DiskSize()\<close>, whose error is returned as
  it is; any other child contributes its \<^verbatim>\<open>Size\<close>. The sum is a \<^verbatim>\<open>uint64\<close> and wraps.
\<close>

fun DiskSize :: "BlockDeviceTree \<Rightarrow> error + u64"
  and DiskSize_loop :: "BlockDeviceTree list \<Rightarrow> u64 \<Rightarrow> error + u64" where
  "DiskSize (Device bd chs) =
     (let diskSize = Size bd in
      case DiskSize_loop chs 0 of
        Inl err \<Rightarrow> Inl err
      | Inr childSize \<Rightarrow>
          if diskSize > 0 \<and> childSize > diskSize
          then Inl (Name bd @ '': Partition Sizes '' @ Sprintf_d (unat childSize) @
                    '' larger than Device Size: '' @ Sprintf_d (unat diskSize))
          else if diskSize > 0 then Inr diskSize
          else Inr childSize)"
| "DiskSize_loop [] childSize = Inr childSize"
| "DiskSize_loop (ch # chs) childSize =
     (if length (children ch) > 0
      then (case DiskSize ch of
              Inl err \<Rightarrow> Inl err
            | Inr sz \<Rightarrow> DiskSize_loop chs (childSize + sz))
      else DiskSize_loop chs (childSize + Size (node ch)))"

text \<open>
  What one child adds to \<^verbatim>\<open>childSize\<close>, and the sum over all children, for the statement
  of the property: a child with children adds the size its own \<^verbatim>\<open>DiskSize()\<close> returns.
\<close>

definition childContribution :: "BlockDeviceTree \<Rightarrow> u64" where
  "childContribution ch =
     (if children ch \<noteq> [] then (case DiskSize ch of Inr sz \<Rightarrow> sz | Inl err \<Rightarrow> 0)
      else Size (node ch))"

definition childrenSum :: "BlockDeviceTree \<Rightarrow> u64" where
  "childrenSum bd = sum_list (map childContribution (children bd))"

definition childFails :: "BlockDeviceTree \<Rightarrow> bool" where
  "childFails bd = (\<exists>ch \<in> set (children bd). children ch \<noteq> [] \<and> isl (DiskSize ch))"

text \<open>
  The child at which the loop of \<^verbatim>\<open>DiskSize\<close> returns: the first child, in the order of
  \<^verbatim>\<open>Children\<close>, that has children and whose \<^verbatim>\<open>DiskSize()\<close> is an error.
\<close>

definition firstFailingChild :: "BlockDeviceTree \<Rightarrow> BlockDeviceTree option" where
  "firstFailingChild bd = find (\<lambda>ch. children ch \<noteq> [] \<and> isl (DiskSize ch)) (children bd)"

section \<open>Equals and the merge of listBlockDevices\<close>

text \<open>\<^verbatim>\<open>Equals\<close>: the argument may be \<^verbatim>\<open>nil\<close>, the receiver is dereferenced.\<close>

definition Equals :: "BlockDeviceTree \<Rightarrow> BlockDeviceTree option \<Rightarrow> bool" where
  "Equals bd cmp =
     (case cmp of
        None \<Rightarrow> False
      | Some c \<Rightarrow> Name (node bd) = Name (node c) \<and> Model (node bd) = Model (node c) \<and>
                  MajorMinor (node bd) = MajorMinor (node c))"

text \<open>
  The inner loop of the merge, over \<^verbatim>\<open>userDefined\<close>: the entry it appends to \<^verbatim>\<open>merged\<close>
  before it breaks, or \<open>None\<close> when \<^verbatim>\<open>added\<close> stays false.
\<close>

fun merge_udef :: "BlockDeviceTree \<Rightarrow> BlockDeviceTree option list \<Rightarrow> BlockDeviceTree option" where
  "merge_udef loaded [] = None"
| "merge_udef loaded (udef # rest) =
     (if \<not> Equals loaded udef then merge_udef loaded rest else udef)"

text \<open>The outer loop, over the discovered devices.\<close>

fun merge_loop :: "BlockDeviceTree list \<Rightarrow> BlockDeviceTree option list \<Rightarrow> BlockDeviceTree list" where
  "merge_loop [] userDefined = []"
| "merge_loop (loaded # bds) userDefined =
     (case merge_udef loaded userDefined of
        Some udef \<Rightarrow> udef # merge_loop bds userDefined
      | None \<Rightarrow> loaded # merge_loop bds userDefined)"

text \<open>
  \<^verbatim>\<open>listBlockDevices\<close> from the point where the probes have answered: \<open>bds\<close> is the list
  decoded from the device listing, with the partition tables attached. The probes are
  external commands and are not modelled. A \<^verbatim>\<open>nil\<close> and an empty \<^verbatim>\<open>userDefined\<close> are both
  the empty list.
\<close>

definition listBlockDevices :: "BlockDeviceTree list \<Rightarrow> BlockDeviceTree option list \<Rightarrow> BlockDeviceTree list" where
  "listBlockDevices bds userDefined =
     (if userDefined = [] then bds else merge_loop bds userDefined)"

section \<open>The store\<close>

text \<open>
  The objects the program has allocated: the \<^verbatim>\<open>BlockDevice\<close> objects and the
  \<^verbatim>\<open>PartedPartition\<close> objects, each kind in an arena of its own. A pointer is the index
  of its object; a new object is appended, so its address is the length of the arena and
  no older pointer is equal to it. A pointer that is not the index of an object stands
  for \<^verbatim>\<open>nil\<close>: dereferencing it is the fault \<open>NilDereference\<close> (the program panics).
\<close>

record store =
  devs :: "BlockDevice list"
  parts :: "PartedPartition list"

datatype fault = NilDereference | OutOfFuel

definition then_do :: "fault + 'a \<Rightarrow> ('a \<Rightarrow> fault + 'b) \<Rightarrow> fault + 'b" where
  "then_do r f = (case r of Inl e \<Rightarrow> Inl e | Inr x \<Rightarrow> f x)"

definition upd_dev :: "ref \<Rightarrow> (BlockDevice \<Rightarrow> BlockDevice) \<Rightarrow> store \<Rightarrow> store" where
  "upd_dev r f s = s\<lparr>devs := (devs s)[r := f (devs s ! r)]\<rparr>"

definition new_dev :: "BlockDevice \<Rightarrow> store \<Rightarrow> ref \<times> store" where
  "new_dev bd s = (length (devs s), s\<lparr>devs := devs s @ [bd]\<rparr>)"

definition new_part :: "PartedPartition \<Rightarrow> store \<Rightarrow> ref \<times> store" where
  "new_part p s = (length (parts s), s\<lparr>parts := parts s @ [p]\<rparr>)"

text \<open>The zero value \<^verbatim>\<open>BlockDevice{}\<close>, which a composite literal fills in.\<close>

definition zeroBlockDeviceFields :: BlockDeviceFields where
  "zeroBlockDeviceFields =
     \<lparr>Name = '''', MappedName = '''', Model = '''', MajorMinor = '''', PtType = '''',
      FsType = '''', UUID = '''', Serial = '''', MountPoint = '''', Label = '''', Size = 0,
      Type = BlockDeviceTypeDisk, State = BlockDeviceStateZero, ReadOnly = False,
      RemovableDevice = False, UserDefined = False, MakePartition = False,
      FormatPartition = False, Options = '''', available = False, partition = 0,
      PartTable = [], removedParts = []\<rparr>"

definition zeroBlockDevice :: BlockDevice where
  "zeroBlockDevice =
     \<lparr>Name = '''', MappedName = '''', Model = '''', MajorMinor = '''', PtType = '''',
      FsType = '''', UUID = '''', Serial = '''', MountPoint = '''', Label = '''', Size = 0,
      Type = BlockDeviceTypeDisk, State = BlockDeviceStateZero, ReadOnly = False,
      RemovableDevice = False, UserDefined = False, MakePartition = False,
      FormatPartition = False, Options = '''', available = False, partition = 0,
      PartTable = [], removedParts = [], Children = [], Parent = None\<rparr>"

section \<open>findFree\<close>

text \<open>\<^verbatim>\<open>PartedPartition.Clone\<close>: a new row with the seven fields of \<open>part\<close>.\<close>

definition PartedPartition_Clone :: "ref \<Rightarrow> store \<Rightarrow> fault + (ref \<times> store)" where
  "PartedPartition_Clone part s =
     (if part < length (parts s)
      then let p = parts s ! part
           in Inr (new_part \<lparr>Number = Number p, Start = Start p, End = End p, PartSize = PartSize p,
                             FileSystem = FileSystem p, PartName = PartName p, Flags = Flags p\<rparr> s)
      else Inl NilDereference)"

text \<open>
  The loop of \<^verbatim>\<open>findFree\<close> over the table: \<^verbatim>\<open>freePart\<close> stays \<^verbatim>\<open>nil\<close> until a row has
  number 0, file system \<^verbatim>\<open>free\<close> and a size of at least \<open>sz\<close>; that row is cloned and
  the loop ends.
\<close>

fun findFree_loop :: "ref list \<Rightarrow> u64 \<Rightarrow> store \<Rightarrow> fault + (ref option \<times> store)" where
  "findFree_loop [] sz s = Inr (None, s)"
| "findFree_loop (part # rest) sz s =
     (if part < length (parts s)
      then if Number (parts s ! part) = 0 \<and> FileSystem (parts s ! part) = ''free''
           then if PartSize (parts s ! part) \<ge> sz
                then then_do (PartedPartition_Clone part s) (\<lambda>(freePart, s'). Inr (Some freePart, s'))
                else findFree_loop rest sz s
           else findFree_loop rest sz s
      else Inl NilDereference)"

definition findFree :: "ref \<Rightarrow> u64 \<Rightarrow> store \<Rightarrow> fault + (ref option \<times> store)" where
  "findFree bd sz s =
     (if bd < length (devs s) then findFree_loop (PartTable (devs s ! bd)) sz s
      else Inl NilDereference)"

text \<open>A row that stands for free space: number 0 and file system \<^verbatim>\<open>free\<close>.\<close>

definition isFree :: "PartedPartition \<Rightarrow> bool" where
  "isFree p = (Number p = 0 \<and> FileSystem p = ''free'')"

text \<open>A row of the store that \<^verbatim>\<open>findFree\<close> accepts for a request of \<open>sz\<close> bytes.\<close>

definition fits :: "store \<Rightarrow> u64 \<Rightarrow> ref \<Rightarrow> bool" where
  "fits s sz part = (isFree (parts s ! part) \<and> PartSize (parts s ! part) \<ge> sz)"

section \<open>AddChild, Clone and RemoveChild\<close>

text \<open>\<^verbatim>\<open>strings.Contains(s, substr)\<close>.\<close>

fun Contains :: "string \<Rightarrow> string \<Rightarrow> bool" where
  "Contains [] substr = (substr = [])"
| "Contains (c # s) substr = (prefix substr (c # s) \<or> Contains s substr)"

definition getBasePartitionName :: "BlockDevice \<Rightarrow> string" where
  "getBasePartitionName bd =
     (let partPrefix =
        (if Type bd = BlockDeviceTypeLoop \<or> Contains (Name bd) ''nvme'' \<or>
            Contains (Name bd) ''mmcblk''
         then ''p'' else '''')
      in Name bd @ partPrefix)"

text \<open>
  \<^verbatim>\<open>AddChild\<close>: the child's \<^verbatim>\<open>Parent\<close> is set, the child is appended to the parent's
  \<^verbatim>\<open>Children\<close>, and a child without a name gets one from the parent's base name and its
  own partition number. The assignments are made one after the other on the store, so
  that they also read right when both pointers are the same object. A \<^verbatim>\<open>nil\<close> slice and
  an empty slice are both the empty list.
\<close>

definition AddChild :: "ref \<Rightarrow> ref \<Rightarrow> store \<Rightarrow> fault + store" where
  "AddChild bd child s =
     (if bd < length (devs s) \<and> child < length (devs s)
      then
        let s = upd_dev child (\<lambda>c. c\<lparr>Parent := Some bd\<rparr>) s;
            s = upd_dev bd (\<lambda>b. b\<lparr>Children := Children b @ [child]\<rparr>) s
        in if Name (devs s ! child) = ''''
           then if partition (devs s ! child) < 1
                then Inr (upd_dev child
                       (\<lambda>c. c\<lparr>Name := getBasePartitionName (devs s ! bd) @ ''?''\<rparr>) s)
                else Inr (upd_dev child
                       (\<lambda>c. c\<lparr>Name := getBasePartitionName (devs s ! bd) @
                                         Sprintf_d (unat (partition (devs s ! child)))\<rparr>) s)
           else Inr s
      else Inl NilDereference)"

text \<open>
  The composite literal of \<^verbatim>\<open>Clone\<close>: the fields it names are copied from \<open>bd\<close>; the
  fields it does not name, \<^verbatim>\<open>PtType\<close> and \<^verbatim>\<open>Options\<close>, have their zero value; \<^verbatim>\<open>Children\<close>
  is the empty slice assigned right after.
\<close>

definition Clone_literal :: "BlockDevice \<Rightarrow> BlockDevice" where
  "Clone_literal bd =
     \<lparr>Name = Name bd, MappedName = MappedName bd, Model = Model bd,
      MajorMinor = MajorMinor bd, PtType = '''', FsType = FsType bd, UUID = UUID bd,
      Serial = Serial bd, MountPoint = MountPoint bd, Label = Label bd, Size = Size bd,
      Type = Type bd, State = State bd, ReadOnly = ReadOnly bd,
      RemovableDevice = RemovableDevice bd, UserDefined = UserDefined bd,
      MakePartition = MakePartition bd, FormatPartition = FormatPartition bd,
      Options = '''', available = available bd, partition = partition bd,
      PartTable = PartTable bd, removedParts = removedParts bd,
      Children = [], Parent = Parent bd\<rparr>"

text \<open>
  \<^verbatim>\<open>Clone\<close> and its loop over \<^verbatim>\<open>bd.Children\<close>. The recursion follows pointers, so it need
  not end (on a device that is its own descendant the program overflows its stack): the
  first argument bounds the depth of the calls, and running out of it is the fault
  \<open>OutOfFuel\<close>. The clone is a new object; each child is cloned, the copy's \<^verbatim>\<open>Parent\<close> is
  set to the clone and the copy is appended to the clone's \<^verbatim>\<open>Children\<close>.
\<close>

fun Clone :: "nat \<Rightarrow> ref \<Rightarrow> store \<Rightarrow> fault + (ref \<times> store)"
  and Clone_loop :: "nat \<Rightarrow> ref \<Rightarrow> ref list \<Rightarrow> store \<Rightarrow> fault + store" where
  "Clone 0 bd s = Inl OutOfFuel"
| "Clone (Suc n) bd s =
     (if bd < length (devs s)
      then let (clone, s1) = new_dev (Clone_literal (devs s ! bd)) s
           in then_do (Clone_loop n clone (Children (devs s ! bd)) s1) (\<lambda>s2. Inr (clone, s2))
      else Inl NilDereference)"
| "Clone_loop n clone [] s = Inr s"
| "Clone_loop n clone (cur # rest) s =
     then_do (Clone n cur s) (\<lambda>(cc, s1).
       let s2 = upd_dev cc (\<lambda>c. c\<lparr>Parent := Some clone\<rparr>) s1;
           s3 = upd_dev clone (\<lambda>c. c\<lparr>Children := Children c @ [cc]\<rparr>) s2
       in Clone_loop n clone rest s3)"





text \<open>The name \<^verbatim>\<open>AddChild\<close> gives to a child of \<open>bd\<close> that has none.\<close>

definition synthesizedName :: "BlockDevice \<Rightarrow> BlockDevice \<Rightarrow> string" where
  "synthesizedName bd child =
     getBasePartitionName bd @
       (if partition child < 1 then ''?'' else Sprintf_d (unat (partition child)))"







section \<open>The standard partitions\<close>

definition bootSize :: u64 where
  "bootSize = 150 * (1000 * 1000)"

definition swapSize :: u64 where
  "swapSize = 256 * (1000 * 1000)"

text \<open>
  Modelled from the spec: \<^verbatim>\<open>AddFromFreePartition\<close>, which \<^verbatim>\<open>NewStandardPartitions\<close> and the
  three \<^verbatim>\<open>Add...StandardPartition\<close> functions call and which is not in the files at hand.
  The specification says of it that a free region found by \<^verbatim>\<open>findFree\<close> is attached to the
  disk as a child, and that a role for which no free region is large enough is left
  without a child. So: with a region, the child is added with \<^verbatim>\<open>AddChild\<close>; without one,
  nothing is added. The rows of the table are not changed (the specification has them
  never mutated after discovery).
\<close>

definition AddFromFreePartition :: "ref \<Rightarrow> ref option \<Rightarrow> ref \<Rightarrow> store \<Rightarrow> fault + store" where
  "AddFromFreePartition bd parted child s =
     (case parted of
        None \<Rightarrow> Inr s
      | Some freePart \<Rightarrow> AddChild bd child s)"

text \<open>The three literals of \<^verbatim>\<open>NewStandardPartitions\<close>.\<close>

definition bootLiteral :: BlockDevice where
  "bootLiteral =
     zeroBlockDevice\<lparr>Size := bootSize, Type := BlockDeviceTypePart, FsType := ''vfat'',
       MountPoint := ''/boot'', Label := ''boot'', UserDefined := True, MakePartition := True,
       FormatPartition := True\<rparr>"

definition swapLiteral :: BlockDevice where
  "swapLiteral =
     zeroBlockDevice\<lparr>Size := swapSize, Type := BlockDeviceTypePart, FsType := ''swap'',
       Label := ''swap'', UserDefined := True, MakePartition := True,
       FormatPartition := True\<rparr>"

definition rootLiteral :: "u64 \<Rightarrow> BlockDevice" where
  "rootLiteral rootSize =
     zeroBlockDevice\<lparr>Size := rootSize, Type := BlockDeviceTypePart, FsType := ''ext4'',
       MountPoint := ''/'', Label := ''root'', UserDefined := True, MakePartition := True,
       FormatPartition := True\<rparr>"

text \<open>
  One allocation step of \<^verbatim>\<open>NewStandardPartitions\<close>: \<^verbatim>\<open>findFree\<close>, then the new device of
  the literal, then \<^verbatim>\<open>AddFromFreePartition\<close>.
\<close>

definition allocate :: "ref \<Rightarrow> u64 \<Rightarrow> BlockDevice \<Rightarrow> store \<Rightarrow> fault + store" where
  "allocate disk sz literal s =
     then_do (findFree disk sz s) (\<lambda>(freePart, s1).
       let (child, s2) = new_dev literal s1
       in AddFromFreePartition disk freePart child s2)"

definition NewStandardPartitions :: "ref \<Rightarrow> store \<Rightarrow> fault + store" where
  "NewStandardPartitions disk s =
     (if disk < length (devs s)
      then
        let s = upd_dev disk (\<lambda>d. d\<lparr>Children := []\<rparr>) s;
            (newFreePart, s) =
               new_part \<lparr>Number = 0, Start = 0, End = Size (devs s ! disk),
                          PartSize = Size (devs s ! disk), FileSystem = ''free'',
                          PartName = '''', Flags = ''''\<rparr> s;
            s = upd_dev disk (\<lambda>d. d\<lparr>PartTable := []\<rparr>) s;
            s = upd_dev disk (\<lambda>d. d\<lparr>PartTable := PartTable d @ [newFreePart]\<rparr>) s;
            rootSize = Size (devs s ! disk) - bootSize - swapSize
        in then_do (allocate disk bootSize bootLiteral s) (\<lambda>s.
           then_do (allocate disk swapSize swapLiteral s) (\<lambda>s.
           allocate disk rootSize (rootLiteral rootSize) s))
      else Inl NilDereference)"

text \<open>What one allocation step leaves behind when the table has a free row that fits.\<close>

definition allocate_post :: "ref \<Rightarrow> BlockDevice \<Rightarrow> store \<Rightarrow> store \<Rightarrow> bool" where
  "allocate_post disk literal s s' =
     (length (devs s') = Suc (length (devs s)) \<and>
      devs s' ! disk = (devs s ! disk)\<lparr>Children := Children (devs s ! disk) @ [length (devs s)]\<rparr> \<and>
      devs s' ! length (devs s) =
        literal\<lparr>Name := synthesizedName (devs s ! disk) literal, Parent := Some disk\<rparr> \<and>
      (\<forall>i < length (devs s). i \<noteq> disk \<longrightarrow> devs s' ! i = devs s ! i) \<and>
      length (parts s) \<le> length (parts s') \<and>
      (\<forall>i < length (parts s). parts s' ! i = parts s ! i))"


section \<open>Decoding the device listing\<close>

text \<open>
  The listing is JSON. The \<^verbatim>\<open>encoding/json\<close> package checks the syntax of the whole
  text before it calls \<^verbatim>\<open>UnmarshalJSON\<close>, so the input of the model is a JSON value; a
  number keeps its literal (the decoder is used with \<^verbatim>\<open>UseNumber\<close>).
\<close>

datatype json =
    JNull
  | JBool bool
  | JNumber string
  | JString string
  | JArray "json list"
  | JObject "(string \<times> json) list"

text \<open>
  What \<^verbatim>\<open>dec.Token()\<close> returns: \<open>EOF\<close> is the error \<^verbatim>\<open>io.EOF\<close>, \<open>Nil\<close> is the \<^verbatim>\<open>nil\<close> token of a
  JSON \<^verbatim>\<open>null\<close>; the other tokens are the delimiters, booleans, numbers and strings. A
  key of an object is a string token like any other.
\<close>

datatype token = EOF | Nil | Delim char | TBool bool | TNumber string | TString string

text \<open>
  The state of a \<^verbatim>\<open>json.Decoder\<close>: what is left of its input, as the values, keys and
  closing delimiters still to come. \<^verbatim>\<open>Token\<close> opens a value that is an array or an object;
  \<^verbatim>\<open>Decode\<close> takes a value whole.
\<close>

datatype item = Val json | Key string | Close char

fun Token :: "item list \<Rightarrow> token \<times> item list" where
  "Token [] = (EOF, [])"
| "Token (Val JNull # dec) = (Nil, dec)"
| "Token (Val (JBool b) # dec) = (TBool b, dec)"
| "Token (Val (JNumber n) # dec) = (TNumber n, dec)"
| "Token (Val (JString str) # dec) = (TString str, dec)"
| "Token (Val (JArray vs) # dec) = (Delim CHR ''['', map Val vs @ Close CHR '']'' # dec)"
| "Token (Val (JObject kvs) # dec) =
     (Delim CHR ''{'', concat (map (\<lambda>(k, v). [Key k, Val v]) kvs) @ Close CHR ''}'' # dec)"
| "Token (Key k # dec) = (TString k, dec)"
| "Token (Close c # dec) = (Delim c, dec)"

text \<open>
  The outcome of a decoding step: a result, an \<^verbatim>\<open>error\<close> value, or a fault. Besides the
  faults of the store there is \<open>NullElement\<close>: a \<^verbatim>\<open>null\<close> element of an array of devices
  decodes to a \<^verbatim>\<open>nil\<close> pointer in a slice, which the lists of addresses of this model do
  not hold, so the model stops there.
\<close>

datatype decodeFault = StoreFault fault | NullElement

datatype 'a res = Return 'a | Error error | Panic decodeFault

text \<open>The double quote of the messages.\<close>

definition dquote :: string where
  "dquote = [CHR 0x22]"

definition getNextStrToken :: "item list \<Rightarrow> string \<Rightarrow> (error + string) \<times> item list" where
  "getNextStrToken dec name =
     (case Token dec of
        (EOF, dec') \<Rightarrow> (Inr '''', dec')
      | (Nil, dec') \<Rightarrow> (Inr '''', dec')
      | (TString str, dec') \<Rightarrow> (Inr str, dec')
      | (_, dec') \<Rightarrow> (Inl (dquote @ name @ dquote @ '' token should have a string value''), dec'))"

text \<open>
  \<^verbatim>\<open>json.Number.Int64\<close>, that is \<^verbatim>\<open>strconv.ParseInt(s, 10, 64)\<close>: an optional sign and
  decimal digits, within the range of \<^verbatim>\<open>int64\<close>.
\<close>

definition digitValue :: "char \<Rightarrow> nat option" where
  "digitValue c =
     map_of [(CHR ''0'', 0), (CHR ''1'', 1), (CHR ''2'', 2), (CHR ''3'', 3), (CHR ''4'', 4),
             (CHR ''5'', 5), (CHR ''6'', 6), (CHR ''7'', 7), (CHR ''8'', 8), (CHR ''9'', 9)] c"

fun digitsValue :: "nat \<Rightarrow> string \<Rightarrow> nat option" where
  "digitsValue acc [] = Some acc"
| "digitsValue acc (c # cs) =
     (case digitValue c of None \<Rightarrow> None | Some d \<Rightarrow> digitsValue (10 * acc + d) cs)"

definition Int64 :: "string \<Rightarrow> error + int" where
  "Int64 str =
     (let (neg, ds) =
        (case str of
           c # cs \<Rightarrow> if c = CHR ''-'' then (True, cs) else if c = CHR ''+'' then (False, cs)
                     else (False, str)
         | [] \<Rightarrow> (False, []))
      in case (if ds = [] then None else digitsValue 0 ds) of
           None \<Rightarrow> Inl (''strconv.ParseInt: parsing '' @ dquote @ str @ dquote @ '': invalid syntax'')
         | Some n \<Rightarrow>
             let v = (if neg then - int n else int n)
             in if - (2 ^ 63) \<le> v \<and> v < 2 ^ 63 then Inr v
                else Inl (''strconv.ParseInt: parsing '' @ dquote @ str @ dquote @ '': value out of range''))"

text \<open>
  \<^verbatim>\<open>getNextByteToken\<close>. A size that comes as a string goes through \<^verbatim>\<open>ParseVolumeSize\<close>,
  which computes in floating point and is a parameter here (\<open>pvs\<close>). A token that is
  neither a number nor a string leaves the size 0.
\<close>

definition getNextByteToken ::
  "(string \<Rightarrow> error + u64) \<Rightarrow> item list \<Rightarrow> string \<Rightarrow> (error + u64) \<times> item list" where
  "getNextByteToken pvs dec name =
     (case Token dec of
        (EOF, dec') \<Rightarrow> (Inr 0, dec')
      | (Nil, dec') \<Rightarrow> (Inr 0, dec')
      | (TNumber t, dec') \<Rightarrow>
          (case Int64 t of Inl err \<Rightarrow> (Inl err, dec') | Inr n \<Rightarrow> (Inr (word_of_int n), dec'))
      | (TString str, dec') \<Rightarrow> (pvs str, dec')
      | (_, dec') \<Rightarrow> (Inr 0, dec'))"

definition getNextBoolToken :: "item list \<Rightarrow> string \<Rightarrow> (error + bool) \<times> item list" where
  "getNextBoolToken dec name =
     (case Token dec of
        (EOF, dec') \<Rightarrow> (Inr False, dec')
      | (Nil, dec') \<Rightarrow> (Inr False, dec')
      | (TBool b, dec') \<Rightarrow> (Inr b, dec')
      | (TString str, dec') \<Rightarrow>
          (if str = ''0'' then Inr False
           else if str = ''1'' then Inr True
           else if str = '''' then Inr False
           else Inl (''Unknown ro value: '' @ str), dec')
      | (_, dec') \<Rightarrow>
          (Inl (dquote @ name @ dquote @ '' token is neither a boolean nor a string value''), dec'))"

text \<open>The two lookups by value in \<^verbatim>\<open>blockDeviceTypeMap\<close> and \<^verbatim>\<open>blockDeviceStateMap\<close>.\<close>

definition parseBlockDeviceType :: "string \<Rightarrow> error + BlockDeviceType" where
  "parseBlockDeviceType bdt =
     (case map_of [(''disk'', BlockDeviceTypeDisk), (''part'', BlockDeviceTypePart),
                   (''crypt'', BlockDeviceTypeCrypt), (''loop'', BlockDeviceTypeLoop),
                   (''rom'', BlockDeviceTypeRom), (''LVM2_member'', BlockDeviceTypeLVM2Group),
                   (''lvm'', BlockDeviceTypeLVM2Volume), ('''', BlockDeviceTypeUnknown)] bdt of
        Some k \<Rightarrow> Inr k
      | None \<Rightarrow> Inl (''Unknown block device type: '' @ bdt))"

definition parseBlockDeviceState :: "string \<Rightarrow> error + BlockDeviceState" where
  "parseBlockDeviceState bds =
     (case map_of [(''running'', BlockDeviceStateRunning), (''live'', BlockDeviceStateLive),
                   (''Connected'', BlockDeviceStateConnected), ('''', BlockDeviceStateUnknown)] bds of
        Some k \<Rightarrow> Inr k
      | None \<Rightarrow> Inl (''Unrecognized block device state: '' @ bds))"

text \<open>
  The nine cases of the switch of \<^verbatim>\<open>UnmarshalJSON\<close> that read a string with
  \<^verbatim>\<open>getNextStrToken\<close> and store it: the key and the field it is stored in.
\<close>

definition stringField :: "string \<Rightarrow> (string \<Rightarrow> BlockDevice \<Rightarrow> BlockDevice) option" where
  "stringField key =
     map_of [(''name'', \<lambda>v bd. bd\<lparr>Name := v\<rparr>), (''model'', \<lambda>v bd. bd\<lparr>Model := v\<rparr>),
             (''maj:min'', \<lambda>v bd. bd\<lparr>MajorMinor := v\<rparr>), (''pttype'', \<lambda>v bd. bd\<lparr>PtType := v\<rparr>),
             (''fstype'', \<lambda>v bd. bd\<lparr>FsType := v\<rparr>), (''uuid'', \<lambda>v bd. bd\<lparr>UUID := v\<rparr>),
             (''serial'', \<lambda>v bd. bd\<lparr>Serial := v\<rparr>),
             (''mountpoint'', \<lambda>v bd. bd\<lparr>MountPoint := v\<rparr>),
             (''label'', \<lambda>v bd. bd\<lparr>Label := v\<rparr>)] key"

text \<open>The name \<^verbatim>\<open>encoding/json\<close> gives the kind of a value in a type error.\<close>

fun kindName :: "item \<Rightarrow> string" where
  "kindName (Val JNull) = ''null''"
| "kindName (Val (JBool b)) = ''bool''"
| "kindName (Val (JNumber n)) = ''number''"
| "kindName (Val (JString str)) = ''string''"
| "kindName (Val (JArray vs)) = ''array''"
| "kindName (Val (JObject kvs)) = ''object''"
| "kindName (Key k) = ''string''"
| "kindName (Close c) = ''delimiter''"

text \<open>
  The loop of \<^verbatim>\<open>UnmarshalJSON\<close> over the tokens of one device, and the decoding of an array
  of devices, which allocates each element and calls \<^verbatim>\<open>UnmarshalJSON\<close> on it. A token that
  is not a string, and a string that is no known key, are skipped. Under the key
  \<^verbatim>\<open>children\<close> the field is set to an empty slice and the next value is decoded into it;
  when the string \<^verbatim>\<open>children\<close> was itself a value, no value follows it and \<^verbatim>\<open>Decode\<close> returns
  its syntax error: no value may begin after a member of an object, and a comma is
  missing after the last element of an array.
  No case of the switch assigns \<^verbatim>\<open>Parent\<close>. The first argument bounds the number of tokens
  read and the depth of the nesting.
\<close>

fun UnmarshalJSON_loop ::
    "(string \<Rightarrow> error + u64) \<Rightarrow> nat \<Rightarrow> item list \<Rightarrow> ref \<Rightarrow> store \<Rightarrow> store res"
  and Decode_devices ::
    "(string \<Rightarrow> error + u64) \<Rightarrow> nat \<Rightarrow> json list \<Rightarrow> store \<Rightarrow> (ref list \<times> store) res" where
  "UnmarshalJSON_loop pvs 0 dec bd s = Panic (StoreFault OutOfFuel)"
| "UnmarshalJSON_loop pvs (Suc n) dec bd s =
     (case Token dec of
        (EOF, dec') \<Rightarrow> Return s
      | (TString str, dec') \<Rightarrow>
          (case stringField str of
             Some assign \<Rightarrow>
               (case getNextStrToken dec' str of
                  (Inl err, dec'') \<Rightarrow> Error err
                | (Inr v, dec'') \<Rightarrow> UnmarshalJSON_loop pvs n dec'' bd (upd_dev bd (assign v) s))
           | None \<Rightarrow>
               if str = ''size'' then
                 (case getNextByteToken pvs dec' ''size'' of
                    (Inl err, dec'') \<Rightarrow> Error err
                  | (Inr v, dec'') \<Rightarrow>
                      UnmarshalJSON_loop pvs n dec'' bd (upd_dev bd (\<lambda>b. b\<lparr>Size := v\<rparr>) s))
               else if str = ''type'' then
                 (case getNextStrToken dec' ''type'' of
                    (Inl err, dec'') \<Rightarrow> Error err
                  | (Inr tp, dec'') \<Rightarrow>
                      (case parseBlockDeviceType tp of
                         Inl err \<Rightarrow> Error err
                       | Inr v \<Rightarrow>
                           UnmarshalJSON_loop pvs n dec'' bd (upd_dev bd (\<lambda>b. b\<lparr>Type := v\<rparr>) s)))
               else if str = ''state'' then
                 (case getNextStrToken dec' ''state'' of
                    (Inl err, dec'') \<Rightarrow> Error err
                  | (Inr st, dec'') \<Rightarrow>
                      (case parseBlockDeviceState st of
                         Inl err \<Rightarrow> Error err
                       | Inr v \<Rightarrow>
                           UnmarshalJSON_loop pvs n dec'' bd (upd_dev bd (\<lambda>b. b\<lparr>State := v\<rparr>) s)))
               else if str = ''ro'' then
                 (case getNextBoolToken dec' ''ro'' of
                    (Inl err, dec'') \<Rightarrow> Error err
                  | (Inr v, dec'') \<Rightarrow>
                      UnmarshalJSON_loop pvs n dec'' bd (upd_dev bd (\<lambda>b. b\<lparr>ReadOnly := v\<rparr>) s))
               else if str = ''rm'' then
                 (case getNextBoolToken dec' ''rm'' of
                    (Inl err, dec'') \<Rightarrow> Error err
                  | (Inr v, dec'') \<Rightarrow>
                      UnmarshalJSON_loop pvs n dec'' bd
                        (upd_dev bd (\<lambda>b. b\<lparr>RemovableDevice := v\<rparr>) s))
               else if str = ''children'' then
                 (let s1 = upd_dev bd (\<lambda>b. b\<lparr>Children := []\<rparr>) s
                  in case dec' of
                       Val (JArray vs) # dec'' \<Rightarrow>
                         (case Decode_devices pvs n vs s1 of
                            Return (refs, s2) \<Rightarrow>
                              UnmarshalJSON_loop pvs n dec'' bd
                                (upd_dev bd (\<lambda>b. b\<lparr>Children := refs\<rparr>) s2)
                          | Error err \<Rightarrow> Error (''Invalid '' @ dquote @ ''children'' @ dquote @ '' token: '' @ err)
                          | Panic f \<Rightarrow> Panic f)
                     | Val JNull # dec'' \<Rightarrow> UnmarshalJSON_loop pvs n dec'' bd s1
                     | Val v # dec'' \<Rightarrow>
                         Error (''Invalid '' @ dquote @ ''children'' @ dquote @ '' token: json: cannot unmarshal '' @
                                kindName (Val v) @ '' into Go value of type []*storage.BlockDevice'')
                     | Key k # dec'' \<Rightarrow>
                         Error (''Invalid '' @ dquote @ ''children'' @ dquote @ '' token: not at beginning of value'')
                     | Close c # dec'' \<Rightarrow>
                         Error (''Invalid '' @ dquote @ ''children'' @ dquote @ '' token: '' @
                                (if c = CHR '']'' then ''expected comma after array element''
                                 else ''not at beginning of value''))
                     | [] \<Rightarrow> Error (''Invalid '' @ dquote @ ''children'' @ dquote @ '' token: EOF''))
               else UnmarshalJSON_loop pvs n dec' bd s)
      | (_, dec') \<Rightarrow> UnmarshalJSON_loop pvs n dec' bd s)"
| "Decode_devices pvs n [] s = Return ([], s)"
| "Decode_devices pvs n (v # vs) s =
     (if v = JNull then Panic NullElement
      else let (bd, s1) = new_dev zeroBlockDevice s
           in case UnmarshalJSON_loop pvs n [Val v] bd s1 of
                Return s2 \<Rightarrow>
                  (case Decode_devices pvs n vs s2 of
                     Return (refs, s3) \<Rightarrow> Return (bd # refs, s3)
                   | Error err \<Rightarrow> Error err
                   | Panic f \<Rightarrow> Panic f)
              | Error err \<Rightarrow> Error err
              | Panic f \<Rightarrow> Panic f)"

text \<open>
  The inner loop of the pass of \<^verbatim>\<open>parseBlockDevicesDescriptor\<close> over the decoded devices:
  it assigns \<^verbatim>\<open>Parent\<close> to a child and then looks at the child; at a child with a mount
  point or with \<^verbatim>\<open>CLR_ISO\<close> in its label the device is marked unavailable and the loop is
  left, before the children that follow are reached.
\<close>

fun descriptor_children :: "ref \<Rightarrow> ref list \<Rightarrow> store \<Rightarrow> fault + store" where
  "descriptor_children bd [] s = Inr s"
| "descriptor_children bd (ch # chs) s =
     (if ch < length (devs s)
      then let s1 = upd_dev ch (\<lambda>c. c\<lparr>Parent := Some bd\<rparr>) s
           in if MountPoint (devs s1 ! ch) \<noteq> ''''
              then Inr (upd_dev bd (\<lambda>b. b\<lparr>available := False\<rparr>) s1)
              else if Contains (Label (devs s1 ! ch)) ''CLR_ISO''
              then Inr (upd_dev bd (\<lambda>b. b\<lparr>available := False\<rparr>) s1)
              else descriptor_children bd chs s1
      else Inl NilDereference)"

fun descriptor_devices :: "ref list \<Rightarrow> store \<Rightarrow> fault + store" where
  "descriptor_devices [] s = Inr s"
| "descriptor_devices (bd # bds) s =
     (if bd < length (devs s)
      then let s1 = upd_dev bd (\<lambda>b. b\<lparr>available := True\<rparr>) s
           in then_do (descriptor_children bd (Children (devs s1 ! bd)) s1) (\<lambda>s2.
                let s3 = (if Contains (FsType (devs s2 ! bd)) ''squashfs''
                          then upd_dev bd (\<lambda>b. b\<lparr>available := False\<rparr>) s2 else s2)
                in descriptor_devices bds s3)
      else Inl NilDereference)"

text \<open>
  \<^verbatim>\<open>parseBlockDevicesDescriptor\<close>: \<^verbatim>\<open>json.Unmarshal\<close> into the struct with the one field
  \<^verbatim>\<open>blockdevices\<close>, then the pass over the devices. The descriptor is the object that
  \<^verbatim>\<open>lsblk\<close> prints, with the member \<^verbatim>\<open>blockdevices\<close> once and in lowercase: that
  \<^verbatim>\<open>encoding/json\<close> also takes the key in another case, and decodes a repeated member again
  into the same slice, is not modelled.
\<close>

definition parseBlockDevicesDescriptor ::
  "(string \<Rightarrow> error + u64) \<Rightarrow> nat \<Rightarrow> json \<Rightarrow> store \<Rightarrow> (ref list \<times> store) res" where
  "parseBlockDevicesDescriptor pvs fuel data s =
     (case data of
        JNull \<Rightarrow> Return ([], s)
      | JObject members \<Rightarrow>
          (case map_of members ''blockdevices'' of
             None \<Rightarrow> Return ([], s)
           | Some JNull \<Rightarrow> Return ([], s)
           | Some (JArray vs) \<Rightarrow>
               (case Decode_devices pvs fuel vs s of
                  Return (bds, s1) \<Rightarrow>
                    (case descriptor_devices bds s1 of
                       Inl f \<Rightarrow> Panic (StoreFault f)
                     | Inr s2 \<Rightarrow> Return (bds, s2))
                | Error err \<Rightarrow> Error err
                | Panic f \<Rightarrow> Panic f)
           | Some v \<Rightarrow>
               Error (''json: cannot unmarshal '' @ kindName (Val v) @
                      '' into Go struct field .blockdevices of type []*storage.BlockDevice''))
      | v \<Rightarrow>
          Error (''json: cannot unmarshal '' @ kindName (Val v) @
                 '' into Go value of type struct { BlockDevices []*storage.BlockDevice '' @
                 dquote @ ''json:'' @ [CHR 0x5C] @ dquote @ ''blockdevices'' @ [CHR 0x5C] @ dquote @
                 dquote @ '' }''))"

section \<open>Concrete devices and stores\<close>

text \<open>
  A store with a disk that has a partition-table type and two partitions, of which the
  second carries \<^verbatim>\<open>mkfs\<close> options.
\<close>

definition diskStore :: store where
  "diskStore =
     \<lparr>devs =
        [zeroBlockDevice\<lparr>Name := ''sda'', PtType := ''gpt'', Size := 1000, Children := [1, 2]\<rparr>,
         zeroBlockDevice\<lparr>Name := ''sda1'', Type := BlockDeviceTypePart, FsType := ''vfat'',
           MountPoint := ''/boot'', Size := 100, Parent := Some 0\<rparr>,
         zeroBlockDevice\<lparr>Name := ''sda?'', Type := BlockDeviceTypePart, FsType := ''ext4'',
           MountPoint := ''/'', Size := 900, Options := ''-b 4096'', Parent := Some 0\<rparr>],
      parts = []\<rparr>"

text \<open>
  A device of type \<open>t\<close> and size \<open>dsz\<close> whose only child is an unencrypted ext4 partition
  of size \<open>csz\<close> mounted at \<^verbatim>\<open>/\<close>.
\<close>

definition rootOnly :: "BlockDeviceType \<Rightarrow> u64 \<Rightarrow> u64 \<Rightarrow> BlockDeviceTree" where
  "rootOnly t dsz csz =
     Device (zeroBlockDeviceFields\<lparr>Name := ''sda'', Type := t, Size := dsz\<rparr>)
       [Device (zeroBlockDeviceFields\<lparr>Name := ''sda1'', Type := BlockDeviceTypePart,
                  FsType := ''ext4'', MountPoint := ''/'', Size := csz\<rparr>) []]"

text \<open>
  A volume group of undeclared size over a partition of 10 bytes that holds a volume of
  20 bytes.
\<close>

definition nestedOversize :: BlockDeviceTree where
  "nestedOversize =
     Device (zeroBlockDeviceFields\<lparr>Name := ''vg'', Size := 0\<rparr>)
       [Device (zeroBlockDeviceFields\<lparr>Name := ''sda1'', Size := 10\<rparr>)
          [Device (zeroBlockDeviceFields\<lparr>Name := ''lv0'', Size := 20\<rparr>) []]]"

text \<open>
  A disk of 100 bytes with a partition of 30 bytes and a group of undeclared size that
  holds volumes of 20 and 25 bytes.
\<close>

definition disk100 :: BlockDeviceTree where
  "disk100 =
     Device (zeroBlockDeviceFields\<lparr>Name := ''sda'', Size := 100\<rparr>)
       [Device (zeroBlockDeviceFields\<lparr>Name := ''sda1'', Size := 30\<rparr>) [],
        Device (zeroBlockDeviceFields\<lparr>Name := ''sda2'', Size := 0\<rparr>)
          [Device (zeroBlockDeviceFields\<lparr>Name := ''lv0'', Size := 20\<rparr>) [],
           Device (zeroBlockDeviceFields\<lparr>Name := ''lv1'', Size := 25\<rparr>) []]]"

text \<open>
  The devices of the merge example: \<^verbatim>\<open>sda\<close> and \<^verbatim>\<open>sdb\<close> as discovered, the user's \<^verbatim>\<open>sda\<close>
  with its mount point set, and a user-defined \<^verbatim>\<open>sdz\<close> that no discovered device
  matches.
\<close>

definition dev :: "string \<Rightarrow> string \<Rightarrow> string \<Rightarrow> string \<Rightarrow> BlockDeviceTree" where
  "dev name model majMin mountPoint =
     Device (zeroBlockDeviceFields\<lparr>Name := name, Model := model, MajorMinor := majMin,
               MountPoint := mountPoint\<rparr>) []"

definition discovered :: "BlockDeviceTree list" where
  "discovered = [dev ''sda'' ''X'' ''8:0'' '''', dev ''sdb'' ''Y'' ''8:16'' '''']"

definition userDefined :: "BlockDeviceTree option list" where
  "userDefined = [Some (dev ''sdz'' ''Z'' ''8:32'' ''/home''), None, Some (dev ''sda'' ''X'' ''8:0'' ''/'')]"

text \<open>
  A store with one disk whose table has four rows: partition 1, a free row of 100
  bytes, a free row of 1000 bytes and a free row of 600 bytes.
\<close>

definition row :: "u64 \<Rightarrow> u64 \<Rightarrow> string \<Rightarrow> PartedPartition" where
  "row n sz fs = \<lparr>Number = n, Start = 0, End = sz, PartSize = sz, FileSystem = fs,
                   PartName = '''', Flags = ''''\<rparr>"

definition tableStore :: store where
  "tableStore =
     \<lparr>devs = [zeroBlockDevice\<lparr>Name := ''sda'', Size := 2000, PartTable := [0, 1, 2, 3]\<rparr>],
      parts = [row 1 300 ''ext4'', row 0 100 ''free'', row 0 1000 ''free'', row 0 600 ''free'']\<rparr>"

text \<open>The same store with a disk of 10,000,000,000 bytes.\<close>

definition tenGigStore :: store where
  "tenGigStore = upd_dev 0 (\<lambda>d. d\<lparr>Size := 10000000000\<rparr>) diskStore"

text \<open>
  A device listing: the disk \<^verbatim>\<open>sda\<close> with the partition \<^verbatim>\<open>sda1\<close>, mounted at \<^verbatim>\<open>/boot\<close>, and
  the partition \<^verbatim>\<open>sda2\<close>, which holds the encrypted volume \<^verbatim>\<open>luks\<close>.
\<close>

definition listing :: json where
  "listing =
     JObject [(''blockdevices'', JArray
       [JObject [(''name'', JString ''sda''), (''type'', JString ''disk''),
          (''children'', JArray
            [JObject [(''name'', JString ''sda1''), (''mountpoint'', JString ''/boot'')],
             JObject [(''name'', JString ''sda2''), (''mountpoint'', JNull),
               (''children'', JArray
                 [JObject [(''name'', JString ''luks''), (''type'', JString ''crypt'')]])]])]])]"

definition emptyStore :: store where
  "emptyStore = \<lparr>devs = [], parts = []\<rparr>"

text \<open>
  Of a decoded listing: the root devices, and the name, the children and the parent of
  every device of the store, by address.
\<close>

definition links :: "(ref list \<times> store) res \<Rightarrow> (ref list \<times> (string \<times> ref list \<times> ref option) list) option" where
  "links r =
     (case r of
        Return (bds, s) \<Rightarrow> Some (bds, map (\<lambda>b. (Name b, Children b, Parent b)) (devs s))
      | Error err \<Rightarrow> None
      | Panic f \<Rightarrow> None)"


section \<open>Properties of Validate\<close>

lemma Validate_loop_Inr:
  "Validate_loop bd chs (b, r, e) = Inr (b', r', e') \<longleftrightarrow>
     (\<forall>ch \<in> set chs. \<not> (isBootChild ch \<and> Type (node ch) = BlockDeviceTypeCrypt)) \<and>
     \<not> (Type (node bd) \<noteq> BlockDeviceTypeDisk \<and> Size (node bd) = 0 \<and>
        (\<exists>ch \<in> set chs. Size (node ch) = 0)) \<and>
     b' = (b \<or> (\<exists>ch \<in> set chs. isBootChild ch)) \<and>
     r' = (r \<or> (\<exists>ch \<in> set chs. MountPoint (node ch) = ''/'')) \<and>
     e' = (e \<or> (\<exists>ch \<in> set chs. Type (node ch) = BlockDeviceTypeCrypt \<and> FsType (node ch) \<noteq> ''swap''))"
proof (induction chs arbitrary: b r e)
  case Nil
  show ?case by auto
next
  case (Cons ch chs)
  show ?case
    by (simp add: Cons.IH Let_def isBootChild_def FsTypeNotSwap_def del: Validate_loop.simps(1)) blast
qed

lemma Validate_loop_Inl:
  "Validate_loop bd chs flags = Inl err \<Longrightarrow>
     err = ''Encryption of /boot is not supported'' \<and>
       (\<exists>ch \<in> set chs. isBootChild ch \<and> Type (node ch) = BlockDeviceTypeCrypt) \<or>
     err = ''Both image size and partition size cannot be 0'' \<and>
       (Type (node bd) \<noteq> BlockDeviceTypeDisk \<and> Size (node bd) = 0 \<and>
        (\<exists>ch \<in> set chs. Size (node ch) = 0))"
proof (induction chs arbitrary: flags)
  case Nil
  then show ?case by simp
next
  case (Cons ch chs)
  obtain b r e where f: "flags = (b, r, e)" by (cases flags) auto
  show ?case
  proof (cases "isBootChild ch \<and> Type (node ch) = BlockDeviceTypeCrypt")
    case True
    with Cons.prems show ?thesis
      unfolding f by (simp add: isBootChild_def split: if_splits)
  next
    case notcrypt: False
    show ?thesis
    proof (cases "Type (node bd) \<noteq> BlockDeviceTypeDisk \<and> Size (node bd) = 0 \<and> Size (node ch) = 0")
      case True
      with Cons.prems notcrypt show ?thesis
        unfolding f by (simp add: isBootChild_def Let_def split: if_splits)
    next
      case False
      with Cons.prems notcrypt obtain fl where "Validate_loop bd chs fl = Inl err"
        unfolding f by (simp add: isBootChild_def Let_def split: if_splits)
      from Cons.IH[OF this] show ?thesis by auto
    qed
  qed
qed

lemma Validate_None_iff:
  "Validate bd legacyBios cryptPass = None \<longleftrightarrow>
     \<not> (noBootChild bd \<and> \<not> legacyBios) \<and> \<not> cryptBootChild bd \<and> \<not> noRootChild bd \<and>
     \<not> (encryptedChild bd \<and> cryptPass = '''') \<and> \<not> ambiguousSize bd"
proof (cases "Validate_loop bd (children bd) (False, False, False)")
  case (Inl err)
  from Validate_loop_Inl[OF Inl] have "cryptBootChild bd \<or> ambiguousSize bd"
    by (auto simp: cryptBootChild_def ambiguousSize_def)
  with Inl show ?thesis by (auto simp: Validate_def)
next
  case (Inr flags)
  obtain b r e where f: "flags = (b, r, e)" by (cases flags) auto
  from Inr[unfolded f Validate_loop_Inr] show ?thesis
    unfolding Validate_def Inr f
    by (auto simp: noBootChild_def cryptBootChild_def noRootChild_def encryptedChild_def
        ambiguousSize_def)
qed

lemma Validate_crypt_boot:
  assumes "cryptBootChild bd" "\<not> ambiguousSize bd"
  shows "Validate bd legacyBios cryptPass = Some ''Encryption of /boot is not supported''"
proof (cases "Validate_loop bd (children bd) (False, False, False)")
  case (Inl err)
  from Validate_loop_Inl[OF Inl] assms have "err = ''Encryption of /boot is not supported''"
    by (auto simp: ambiguousSize_def)
  with Inl show ?thesis by (simp add: Validate_def)
next
  case (Inr flags)
  obtain b r e where f: "flags = (b, r, e)" by (cases flags) auto
  from Inr[unfolded f Validate_loop_Inr] assms show ?thesis
    by (auto simp: cryptBootChild_def)
qed

lemma Validate_no_EFI:
  assumes "noBootChild bd" "\<not> ambiguousSize bd"
  shows "Validate bd False cryptPass = Some ''Could not find a suitable EFI partition''"
proof (cases "Validate_loop bd (children bd) (False, False, False)")
  case (Inl err)
  from Validate_loop_Inl[OF Inl] assms show ?thesis
    by (auto simp: ambiguousSize_def noBootChild_def)
next
  case (Inr flags)
  obtain b r e where f: "flags = (b, r, e)" by (cases flags) auto
  from Inr[unfolded f Validate_loop_Inr] assms show ?thesis
    unfolding Validate_def Inr f
    by (auto simp: noBootChild_def)
qed

text \<open>
  C1, as the code has it. \<^verbatim>\<open>Validate\<close> fails exactly when one of the five conditions
  holds: no vfat \<^verbatim>\<open>/boot\<close> child and not legacy BIOS; a vfat \<^verbatim>\<open>/boot\<close> child of crypt type;
  no child mounted at \<^verbatim>\<open>/\<close>; a crypt child that is not swap and an empty passphrase; a
  device that is not a disk, of size 0, with a child of size 0. A crypt \<^verbatim>\<open>/boot\<close> child
  makes it fail whatever the passphrase, and with the error of its own whenever the fifth
  condition does not hold. A device with a \<^verbatim>\<open>/\<close> child, no vfat \<^verbatim>\<open>/boot\<close> child and no crypt child
  fails when \<open>legacyBios\<close> is false; when moreover the fifth condition does not hold, that
  error is the missing EFI partition, and the device passes when \<open>legacyBios\<close> is true.
\<close>

theorem Validate_fails_iff:
  "(Validate bd legacyBios cryptPass \<noteq> None \<longleftrightarrow>
      (noBootChild bd \<and> \<not> legacyBios) \<or> cryptBootChild bd \<or> noRootChild bd \<or>
      (encryptedChild bd \<and> cryptPass = '''') \<or> ambiguousSize bd) \<and>
   (cryptBootChild bd \<longrightarrow> (\<forall>pass. Validate bd legacyBios pass \<noteq> None)) \<and>
   (cryptBootChild bd \<and> \<not> ambiguousSize bd \<longrightarrow>
      (\<forall>pass. Validate bd legacyBios pass = Some ''Encryption of /boot is not supported'')) \<and>
   (\<not> noRootChild bd \<and> noBootChild bd \<and> noCryptChild bd \<longrightarrow>
      Validate bd False cryptPass \<noteq> None \<and>
      (\<not> ambiguousSize bd \<longrightarrow>
         Validate bd False cryptPass = Some ''Could not find a suitable EFI partition'' \<and>
         Validate bd True cryptPass = None))"
proof (intro conjI impI allI)
  show "Validate bd legacyBios cryptPass \<noteq> None \<longleftrightarrow>
      (noBootChild bd \<and> \<not> legacyBios) \<or> cryptBootChild bd \<or> noRootChild bd \<or>
      (encryptedChild bd \<and> cryptPass = '''') \<or> ambiguousSize bd"
    by (simp add: Validate_None_iff)
next
  fix pass assume "cryptBootChild bd"
  then show "Validate bd legacyBios pass \<noteq> None"
    by (simp add: Validate_None_iff)
next
  fix pass assume "cryptBootChild bd \<and> \<not> ambiguousSize bd"
  then show "Validate bd legacyBios pass = Some ''Encryption of /boot is not supported''"
    by (simp add: Validate_crypt_boot)
next
  assume "\<not> noRootChild bd \<and> noBootChild bd \<and> noCryptChild bd"
  then show "Validate bd False cryptPass \<noteq> None"
    by (simp add: Validate_None_iff)
next
  assume "\<not> noRootChild bd \<and> noBootChild bd \<and> noCryptChild bd" "\<not> ambiguousSize bd"
  then show "Validate bd False cryptPass = Some ''Could not find a suitable EFI partition''"
    by (simp add: Validate_no_EFI)
next
  assume a: "\<not> noRootChild bd \<and> noBootChild bd \<and> noCryptChild bd" "\<not> ambiguousSize bd"
  then have "\<not> cryptBootChild bd" "\<not> encryptedChild bd"
    by (auto simp: noCryptChild_def cryptBootChild_def encryptedChild_def)
  with a show "Validate bd True cryptPass = None"
    by (simp add: Validate_None_iff)
qed

text \<open>
  The theorem at a disk of 1000 bytes with a root partition of 500 bytes and nothing
  else: no EFI partition without legacy BIOS, valid with it.
\<close>

theorem Validate_fails_iff_witness:
  "Validate (rootOnly BlockDeviceTypeDisk 1000 500) False '''' =
     Some ''Could not find a suitable EFI partition'' \<and>
   Validate (rootOnly BlockDeviceTypeDisk 1000 500) True '''' = None"
  using Validate_fails_iff[of "rootOnly BlockDeviceTypeDisk 1000 500" True "''''"]
  by (simp add: rootOnly_def noRootChild_def noBootChild_def noCryptChild_def isBootChild_def
      ambiguousSize_def zeroBlockDeviceFields_def)

text \<open>
  C1 as the claim states it fails: a loop device of undeclared size whose only child is
  a root partition of undeclared size has a \<^verbatim>\<open>/\<close> child, no vfat \<^verbatim>\<open>/boot\<close> child and no
  crypt child, and \<^verbatim>\<open>Validate\<close> rejects it with \<open>legacyBios\<close> true.
\<close>

theorem Validate_legacy_counterexample:
  "\<not> noRootChild (rootOnly BlockDeviceTypeLoop 0 0) \<and>
   noBootChild (rootOnly BlockDeviceTypeLoop 0 0) \<and>
   noCryptChild (rootOnly BlockDeviceTypeLoop 0 0) \<and>
   Validate (rootOnly BlockDeviceTypeLoop 0 0) True '''' =
     Some ''Both image size and partition size cannot be 0''"
  by (simp add: rootOnly_def noRootChild_def noBootChild_def noCryptChild_def isBootChild_def
      Validate_def zeroBlockDeviceFields_def FsTypeNotSwap_def)

section \<open>Properties of DiskSize\<close>

lemma DiskSize_loop_fails:
  "\<exists>ch \<in> set chs. children ch \<noteq> [] \<and> isl (DiskSize ch) \<Longrightarrow> isl (DiskSize_loop chs acc)"
proof (induction chs arbitrary: acc)
  case Nil
  then show ?case by simp
next
  case (Cons ch chs)
  show ?case
  proof (cases "children ch \<noteq> [] \<and> isl (DiskSize ch)")
    case True
    then show ?thesis by (auto simp: isl_def)
  next
    case False
    with Cons.prems have "\<exists>c \<in> set chs. children c \<noteq> [] \<and> isl (DiskSize c)" by auto
    from Cons.IH[OF this] False show ?thesis
      by (cases "DiskSize ch") auto
  qed
qed

lemma DiskSize_loop_sum:
  "\<not> (\<exists>ch \<in> set chs. children ch \<noteq> [] \<and> isl (DiskSize ch)) \<Longrightarrow>
     DiskSize_loop chs acc = Inr (acc + sum_list (map childContribution chs))"
proof (induction chs arbitrary: acc)
  case Nil
  then show ?case by simp
next
  case (Cons ch chs)
  from Cons.prems have rest: "\<not> (\<exists>c \<in> set chs. children c \<noteq> [] \<and> isl (DiskSize c))" by auto
  show ?case
  proof (cases "children ch = []")
    case True
    then show ?thesis
      by (simp add: Cons.IH[OF rest] childContribution_def add.assoc)
  next
    case False
    with Cons.prems obtain sz where sz: "DiskSize ch = Inr sz"
      by (cases "DiskSize ch") auto
    with False show ?thesis
      by (simp add: Cons.IH[OF rest] childContribution_def add.assoc)
  qed
qed

lemma DiskSize_loop_first:
  "find (\<lambda>ch. children ch \<noteq> [] \<and> isl (DiskSize ch)) chs = Some c \<Longrightarrow>
     DiskSize_loop chs acc = DiskSize c"
proof (induction chs arbitrary: acc)
  case Nil
  then show ?case by simp
next
  case (Cons ch chs)
  show ?case
  proof (cases "children ch \<noteq> [] \<and> isl (DiskSize ch)")
    case True
    with Cons.prems have "c = ch" by simp
    with True show ?thesis by (auto simp: isl_def)
  next
    case False
    with Cons.prems have "find (\<lambda>ch. children ch \<noteq> [] \<and> isl (DiskSize ch)) chs = Some c"
      by simp
    from Cons.IH[OF this] False show ?thesis
      by (cases "DiskSize ch") auto
  qed
qed

lemma firstFailingChild_Some:
  assumes "childFails bd"
  shows "\<exists>ch \<in> set (children bd). children ch \<noteq> [] \<and> isl (DiskSize ch) \<and>
           firstFailingChild bd = Some ch"
proof -
  from assms have "find (\<lambda>ch. children ch \<noteq> [] \<and> isl (DiskSize ch)) (children bd) \<noteq> None"
    by (auto simp: childFails_def find_None_iff)
  then obtain ch where
    f: "find (\<lambda>ch. children ch \<noteq> [] \<and> isl (DiskSize ch)) (children bd) = Some ch"
    by auto
  then have "ch \<in> set (children bd)" "children ch \<noteq> [] \<and> isl (DiskSize ch)"
    by (auto simp: find_Some_iff)
  with f show ?thesis by (auto simp: firstFailingChild_def)
qed

text \<open>
  C3, as the code has it. \<^verbatim>\<open>DiskSize\<close> returns an error exactly when the \<^verbatim>\<open>DiskSize\<close> of a
  child that has children returns an error, or the declared size is positive and the
  64-bit sum of what the children contribute exceeds it. In the first case the result is
  the result of that child, the first such child in the order of \<^verbatim>\<open>Children\<close>: its error
  is passed up as it is. In the second case alone the error is the message of the device
  itself, with the sum and the declared size. Otherwise \<^verbatim>\<open>DiskSize\<close> returns the declared
  size when that is positive, and the sum when it is 0.
\<close>

theorem DiskSize_result:
  "(isl (DiskSize bd) \<longleftrightarrow>
      childFails bd \<or> (Size (node bd) > 0 \<and> childrenSum bd > Size (node bd))) \<and>
   (childFails bd \<longrightarrow>
      (\<exists>ch \<in> set (children bd). children ch \<noteq> [] \<and> isl (DiskSize ch) \<and>
         firstFailingChild bd = Some ch \<and> DiskSize bd = DiskSize ch)) \<and>
   (\<not> childFails bd \<and> Size (node bd) > 0 \<and> childrenSum bd > Size (node bd) \<longrightarrow>
      DiskSize bd =
        Inl (Name (node bd) @ '': Partition Sizes '' @ Sprintf_d (unat (childrenSum bd)) @
             '' larger than Device Size: '' @ Sprintf_d (unat (Size (node bd))))) \<and>
   (\<not> isl (DiskSize bd) \<longrightarrow>
      DiskSize bd = Inr (if Size (node bd) > 0 then Size (node bd) else childrenSum bd))"
proof (cases bd)
  case (Device f chs)
  show ?thesis
  proof (cases "childFails bd")
    case True
    from firstFailingChild_Some[OF True] obtain ch where
      ch: "ch \<in> set (children bd)" "children ch \<noteq> []" "isl (DiskSize ch)"
          "firstFailingChild bd = Some ch"
      by auto
    from ch(4) have loop: "DiskSize_loop chs 0 = DiskSize ch"
      using DiskSize_loop_first[of chs ch 0] by (simp add: firstFailingChild_def Device)
    from ch(3) obtain err where err: "DiskSize ch = Inl err" by (auto simp: isl_def)
    from loop err have bd: "DiskSize bd = DiskSize ch" by (simp add: Device)
    have "\<exists>ch \<in> set (children bd). children ch \<noteq> [] \<and> isl (DiskSize ch) \<and>
         firstFailingChild bd = Some ch \<and> DiskSize bd = DiskSize ch"
      using ch bd by blast
    moreover have "isl (DiskSize bd)" using bd ch(3) by simp
    ultimately show ?thesis using True by simp
  next
    case False
    then have "DiskSize_loop chs 0 = Inr (childrenSum bd)"
      using DiskSize_loop_sum[of chs 0] by (simp add: childFails_def childrenSum_def Device)
    with False show ?thesis by (simp add: Device Let_def)
  qed
qed

text \<open>
  The theorem at two devices. At a disk of 100 bytes whose children contribute 30 and 45
  bytes no child fails, the sum is 75 and the result is the declared size. At a group of
  undeclared size whose only child declares 10 bytes and holds a volume of 20 bytes, the
  child fails and the result of the group is the result of the child.
\<close>

theorem DiskSize_result_witness:
  "DiskSize disk100 = Inr 100 \<and> childrenSum disk100 = 75 \<and> \<not> childFails disk100 \<and>
   childFails nestedOversize \<and>
   firstFailingChild nestedOversize =
     Some (Device (zeroBlockDeviceFields\<lparr>Name := ''sda1'', Size := 10\<rparr>)
            [Device (zeroBlockDeviceFields\<lparr>Name := ''lv0'', Size := 20\<rparr>) []]) \<and>
   DiskSize nestedOversize =
     DiskSize (Device (zeroBlockDeviceFields\<lparr>Name := ''sda1'', Size := 10\<rparr>)
                [Device (zeroBlockDeviceFields\<lparr>Name := ''lv0'', Size := 20\<rparr>) []])"
  using DiskSize_result[of disk100] DiskSize_result[of nestedOversize]
  by (simp add: disk100_def nestedOversize_def zeroBlockDeviceFields_def childFails_def
      childrenSum_def childContribution_def firstFailingChild_def)

text \<open>
  C3 as the claim states it fails: the device declares size 0, so the claim's condition
  for an error is false, and \<^verbatim>\<open>DiskSize\<close> returns the error of its child, whose own
  child is larger than the child declares.
\<close>

theorem DiskSize_nested_counterexample:
  "Size (node nestedOversize) = 0 \<and>
   DiskSize nestedOversize = Inl ''sda1: Partition Sizes 20 larger than Device Size: 10''"
  by (simp add: nestedOversize_def zeroBlockDeviceFields_def Sprintf_d.simps)

section \<open>Properties of the merge\<close>

lemma merge_udef_None: "merge_udef loaded U = None \<longleftrightarrow> (\<forall>u \<in> set U. \<not> Equals loaded u)"
  by (induction U) (auto simp: Equals_def split: option.splits)

lemma merge_udef_Some:
  "merge_udef loaded U = Some x \<longleftrightarrow>
     (\<exists>i < length U. U ! i = Some x \<and> Equals loaded (U ! i) \<and> (\<forall>j < i. \<not> Equals loaded (U ! j)))"
proof (induction U)
  case Nil
  show ?case by simp
next
  case (Cons u U)
  show ?case
  proof (cases "Equals loaded u")
    case True
    then have "merge_udef loaded (u # U) = u" by simp
    moreover have "(\<exists>i < length (u # U). (u # U) ! i = Some x \<and> Equals loaded ((u # U) ! i) \<and>
        (\<forall>j < i. \<not> Equals loaded ((u # U) ! j))) \<longleftrightarrow> u = Some x"
    proof
      assume "\<exists>i < length (u # U). (u # U) ! i = Some x \<and> Equals loaded ((u # U) ! i) \<and>
        (\<forall>j < i. \<not> Equals loaded ((u # U) ! j))"
      then obtain i where i: "(u # U) ! i = Some x" "\<forall>j < i. \<not> Equals loaded ((u # U) ! j)"
        by blast
      have "i = 0"
      proof (rule ccontr)
        assume "i \<noteq> 0"
        then have "0 < i" by simp
        with i(2) have "\<not> Equals loaded ((u # U) ! 0)" by blast
        with True show False by simp
      qed
      with i show "u = Some x" by simp
    next
      assume "u = Some x"
      with True show "\<exists>i < length (u # U). (u # U) ! i = Some x \<and> Equals loaded ((u # U) ! i) \<and>
        (\<forall>j < i. \<not> Equals loaded ((u # U) ! j))"
        by (intro exI[of _ 0]) simp
    qed
    ultimately show ?thesis by simp
  next
    case False
    have "(\<exists>i < length (u # U). (u # U) ! i = Some x \<and> Equals loaded ((u # U) ! i) \<and>
            (\<forall>j < i. \<not> Equals loaded ((u # U) ! j))) \<longleftrightarrow>
          (\<exists>i < length U. U ! i = Some x \<and> Equals loaded (U ! i) \<and>
            (\<forall>j < i. \<not> Equals loaded (U ! j)))"
      (is "?L \<longleftrightarrow> ?R")
    proof
      assume ?L
      then obtain i where i: "i < length (u # U)" "(u # U) ! i = Some x"
        "Equals loaded ((u # U) ! i)" "\<forall>j < i. \<not> Equals loaded ((u # U) ! j)" by blast
      with False obtain k where k: "i = Suc k" by (cases i) auto
      have "\<forall>j < k. \<not> Equals loaded (U ! j)"
      proof (intro allI impI)
        fix j assume "j < k"
        then have "Suc j < i" using k by simp
        with i(4) have "\<not> Equals loaded ((u # U) ! Suc j)" by blast
        then show "\<not> Equals loaded (U ! j)" by simp
      qed
      with i k show ?R by (intro exI[of _ k]) simp
    next
      assume ?R
      then obtain k where k: "k < length U" "U ! k = Some x" "Equals loaded (U ! k)"
        "\<forall>j < k. \<not> Equals loaded (U ! j)" by blast
      have "\<forall>j < Suc k. \<not> Equals loaded ((u # U) ! j)"
      proof (intro allI impI)
        fix j assume "j < Suc k"
        with False k(4) show "\<not> Equals loaded ((u # U) ! j)" by (cases j) auto
      qed
      with k show ?L by (intro exI[of _ "Suc k"]) simp
    qed
    with False Cons.IH show ?thesis by simp
  qed
qed

lemma merge_loop_length: "length (merge_loop D U) = length D"
  by (induction D) (auto split: option.splits)

lemma merge_loop_nth:
  "i < length D \<Longrightarrow>
     merge_loop D U ! i = (case merge_udef (D ! i) U of Some u \<Rightarrow> u | None \<Rightarrow> D ! i)"
proof (induction D arbitrary: i)
  case Nil
  then show ?case by simp
next
  case (Cons d D)
  then show ?case by (cases i) (auto split: option.splits)
qed

lemma Equals_refl: "Equals d (Some d)"
  by (simp add: Equals_def)

text \<open>
  C6. For a non-empty list \<open>U\<close> of user-defined devices, the merged list has one entry
  for each discovered device of \<open>D\<close>, in the same order. Where some entry of \<open>U\<close> matches
  the discovered device by name, model and major:minor, the merged entry is the first
  such entry of \<open>U\<close> itself, with all its fields; where none matches, it is the
  discovered device. An entry of \<open>U\<close> that matches no discovered device is not in the
  merged list.
\<close>

theorem listBlockDevices_merge:
  assumes "U \<noteq> []"
  shows "length (listBlockDevices D U) = length D \<and>
         (\<forall>i < length D.
            ((\<exists>u \<in> set U. Equals (D ! i) u) \<longrightarrow>
               (\<exists>k < length U. U ! k = Some (listBlockDevices D U ! i) \<and> Equals (D ! i) (U ! k) \<and>
                   (\<forall>j < k. \<not> Equals (D ! i) (U ! j)))) \<and>
            (\<not> (\<exists>u \<in> set U. Equals (D ! i) u) \<longrightarrow> listBlockDevices D U ! i = D ! i)) \<and>
         (\<forall>u \<in> set U. (\<forall>d \<in> set D. \<not> Equals d u) \<longrightarrow> u \<notin> Some ` set (listBlockDevices D U))"
proof (intro conjI allI impI ballI)
  show "length (listBlockDevices D U) = length D"
    using assms by (simp add: listBlockDevices_def merge_loop_length)
next
  fix i assume i: "i < length D" and m: "\<exists>u \<in> set U. Equals (D ! i) u"
  then obtain x where x: "merge_udef (D ! i) U = Some x"
    using merge_udef_None[of "D ! i" U] by (cases "merge_udef (D ! i) U") auto
  with i have "listBlockDevices D U ! i = x"
    using assms by (simp add: listBlockDevices_def merge_loop_nth)
  with x show "\<exists>k < length U. U ! k = Some (listBlockDevices D U ! i) \<and> Equals (D ! i) (U ! k) \<and>
                   (\<forall>j < k. \<not> Equals (D ! i) (U ! j))"
    using merge_udef_Some[of "D ! i" U x] by simp
next
  fix i assume i: "i < length D" and m: "\<not> (\<exists>u \<in> set U. Equals (D ! i) u)"
  then have "merge_udef (D ! i) U = None"
    using merge_udef_None[of "D ! i" U] by simp
  with i show "listBlockDevices D U ! i = D ! i"
    using assms by (simp add: listBlockDevices_def merge_loop_nth)
next
  fix u assume u: "u \<in> set U" and un: "\<forall>d \<in> set D. \<not> Equals d u"
  show "u \<notin> Some ` set (listBlockDevices D U)"
  proof
    assume "u \<in> Some ` set (listBlockDevices D U)"
    then obtain x where x: "u = Some x" "x \<in> set (merge_loop D U)"
      using assms by (auto simp: listBlockDevices_def)
    then obtain i where i: "i < length D" "merge_loop D U ! i = x"
      by (auto simp: in_set_conv_nth merge_loop_length)
    show False
    proof (cases "merge_udef (D ! i) U")
      case None
      with i have "x = D ! i" by (simp add: merge_loop_nth)
      with un x i Equals_refl[of x] show False by auto
    next
      case (Some y)
      with i have "x = y" by (simp add: merge_loop_nth)
      with Some merge_udef_Some[of "D ! i" U x] have "Equals (D ! i) (Some x)" by auto
      with un x i show False by auto
    qed
  qed
qed

text \<open>
  The theorem at the example of the specification: the user's \<^verbatim>\<open>sda\<close>, with mount point
  \<^verbatim>\<open>/\<close>, takes the place of the discovered \<^verbatim>\<open>sda\<close>; \<^verbatim>\<open>sdb\<close> stays; the user's \<^verbatim>\<open>sdz\<close> is
  dropped.
\<close>

theorem listBlockDevices_merge_witness:
  "listBlockDevices discovered userDefined =
     [dev ''sda'' ''X'' ''8:0'' ''/'', dev ''sdb'' ''Y'' ''8:16'' ''''] \<and>
   MountPoint (node (listBlockDevices discovered userDefined ! 0)) = ''/'' \<and>
   userDefined ! 0 \<notin> Some ` set (listBlockDevices discovered userDefined)"
  using listBlockDevices_merge[of userDefined discovered]
  by (simp add: discovered_def userDefined_def dev_def listBlockDevices_def Equals_def
      zeroBlockDeviceFields_def)

section \<open>Properties of findFree\<close>

lemma PartedPartition_Clone_valid:
  "part < length (parts s) \<Longrightarrow>
     PartedPartition_Clone part s = Inr (length (parts s), s\<lparr>parts := parts s @ [parts s ! part]\<rparr>)"
  by (simp add: PartedPartition_Clone_def new_part_def Let_def)

lemma findFree_loop_none:
  "\<forall>p \<in> set T. p < length (parts s) \<Longrightarrow> \<forall>p \<in> set T. \<not> fits s sz p \<Longrightarrow>
     findFree_loop T sz s = Inr (None, s)"
  by (induction T) (auto simp: fits_def isFree_def)

lemma findFree_loop_first:
  "\<forall>p \<in> set T. p < length (parts s) \<Longrightarrow> i < length T \<Longrightarrow> fits s sz (T ! i) \<Longrightarrow>
   \<forall>j < i. \<not> fits s sz (T ! j) \<Longrightarrow>
     findFree_loop T sz s = Inr (Some (length (parts s)), s\<lparr>parts := parts s @ [parts s ! (T ! i)]\<rparr>)"
proof (induction T arbitrary: i)
  case Nil
  then show ?case by simp
next
  case (Cons p T)
  show ?case
  proof (cases i)
    case 0
    with Cons.prems show ?thesis
      by (simp add: fits_def isFree_def PartedPartition_Clone_valid then_do_def)
  next
    case (Suc k)
    with Cons.prems have np: "\<not> fits s sz p" by auto
    have "\<forall>j < k. \<not> fits s sz (T ! j)"
    proof (intro allI impI)
      fix j assume "j < k"
      then have "Suc j < i" using Suc by simp
      with Cons.prems(4) have "\<not> fits s sz ((p # T) ! Suc j)" by blast
      then show "\<not> fits s sz (T ! j)" by simp
    qed
    with Cons.prems Suc have "findFree_loop T sz s = Inr (Some (length (parts s)), s\<lparr>parts := parts s @ [parts s ! (T ! k)]\<rparr>)"
      by (intro Cons.IH) auto
    with np Cons.prems(1) Suc show ?thesis
      by (auto simp: fits_def isFree_def)
  qed
qed

lemma first_index:
  "\<exists>p \<in> set T. P p \<Longrightarrow> \<exists>i < length T. P (T ! i) \<and> (\<forall>j < i. \<not> P (T ! j))"
proof (induction T)
  case Nil
  then show ?case by simp
next
  case (Cons p T)
  show ?case
  proof (cases "P p")
    case True
    then show ?thesis by (intro exI[of _ 0]) simp
  next
    case False
    with Cons obtain k where k: "k < length T" "P (T ! k)" "\<forall>j < k. \<not> P (T ! j)" by auto
    have "\<forall>j < Suc k. \<not> P ((p # T) ! j)"
    proof (intro allI impI)
      fix j assume "j < Suc k"
      with False k(3) show "\<not> P ((p # T) ! j)" by (cases j) auto
    qed
    with k show ?thesis by (intro exI[of _ "Suc k"]) simp
  qed
qed

text \<open>
  C9. Let the device and every row its table points to be allocated. If some row of
  the table is free (number 0, file system \<^verbatim>\<open>free\<close>) with a size of at least \<open>sz\<close>, then
  \<^verbatim>\<open>findFree\<close> returns a pointer to a new row, which is no row of the table nor any row
  that existed before, and whose fields are those of the first such row in table order:
  its size is at least \<open>sz\<close> and no earlier row fits. If no row of the table fits,
  \<^verbatim>\<open>findFree\<close> returns \<^verbatim>\<open>nil\<close> and changes nothing.
\<close>

theorem findFree_first_fit:
  assumes "bd < length (devs s)"
    and "\<forall>p \<in> set (PartTable (devs s ! bd)). p < length (parts s)"
  shows "((\<exists>p \<in> set (PartTable (devs s ! bd)). fits s sz p) \<longrightarrow>
           (\<exists>i < length (PartTable (devs s ! bd)).
              fits s sz (PartTable (devs s ! bd) ! i) \<and>
              (\<forall>j < i. \<not> fits s sz (PartTable (devs s ! bd) ! j)) \<and>
              (\<exists>r s'. findFree bd sz s = Inr (Some r, s') \<and>
                 r \<notin> set (PartTable (devs s ! bd)) \<and> \<not> r < length (parts s) \<and>
                 parts s' = parts s @ [parts s ! (PartTable (devs s ! bd) ! i)] \<and>
                 devs s' = devs s \<and>
                 parts s' ! r = parts s ! (PartTable (devs s ! bd) ! i) \<and>
                 PartSize (parts s' ! r) \<ge> sz))) \<and>
         ((\<forall>p \<in> set (PartTable (devs s ! bd)). \<not> fits s sz p) \<longrightarrow>
            findFree bd sz s = Inr (None, s))"
proof (intro conjI impI)
  let ?T = "PartTable (devs s ! bd)"
  assume "\<exists>p \<in> set ?T. fits s sz p"
  from first_index[of ?T "fits s sz", OF this]
  obtain i where i: "i < length ?T" "fits s sz (?T ! i)" "\<forall>j < i. \<not> fits s sz (?T ! j)" by blast
  let ?r = "length (parts s)"
  let ?s' = "s\<lparr>parts := parts s @ [parts s ! (?T ! i)]\<rparr>"
  have ff: "findFree bd sz s = Inr (Some ?r, ?s')"
    using assms findFree_loop_first[OF assms(2) i] by (simp add: findFree_def)
  have fresh: "?r \<notin> set ?T" using assms(2) by auto
  have sz: "PartSize (parts ?s' ! ?r) \<ge> sz" using i(2) by (simp add: fits_def)
  from ff fresh sz have "\<exists>r s'. findFree bd sz s = Inr (Some r, s') \<and>
                 r \<notin> set ?T \<and> \<not> r < length (parts s) \<and>
                 parts s' = parts s @ [parts s ! (?T ! i)] \<and>
                 devs s' = devs s \<and>
                 parts s' ! r = parts s ! (?T ! i) \<and>
                 PartSize (parts s' ! r) \<ge> sz"
    by (intro exI[of _ ?r] exI[of _ ?s']) simp
  with i show "\<exists>i < length ?T.
              fits s sz (?T ! i) \<and>
              (\<forall>j < i. \<not> fits s sz (?T ! j)) \<and>
              (\<exists>r s'. findFree bd sz s = Inr (Some r, s') \<and>
                 r \<notin> set ?T \<and> \<not> r < length (parts s) \<and>
                 parts s' = parts s @ [parts s ! (?T ! i)] \<and>
                 devs s' = devs s \<and>
                 parts s' ! r = parts s ! (?T ! i) \<and>
                 PartSize (parts s' ! r) \<ge> sz)"
    by blast
next
  assume "\<forall>p \<in> set (PartTable (devs s ! bd)). \<not> fits s sz p"
  with assms show "findFree bd sz s = Inr (None, s)"
    by (simp add: findFree_def findFree_loop_none)
qed

text \<open>
  The theorem at a table of a used row and free rows of 100, 1000 and 600 bytes: a request
  of 500 bytes gets a copy of the row of 1000 bytes, the first that fits and not the
  smallest that fits; a request of 5000 bytes gets nothing.
\<close>

theorem findFree_first_fit_witness:
  "findFree 0 500 tableStore =
     Inr (Some 4, tableStore\<lparr>parts := parts tableStore @ [row 0 1000 ''free'']\<rparr>) \<and>
   findFree 0 5000 tableStore = Inr (None, tableStore)"
  using findFree_first_fit[of 0 tableStore 500] findFree_first_fit[of 0 tableStore 5000]
  by (simp add: tableStore_def row_def fits_def isFree_def findFree_def zeroBlockDevice_def
      PartedPartition_Clone_def new_part_def then_do_def Let_def)

section \<open>Properties of Clone and RemoveChild\<close>








lemma AddChild_unnamed:
  assumes "bd < length (devs s)" "cur < length (devs s)" "cur \<noteq> bd" "Name (devs s ! cur) = ''''"
  shows "\<exists>s'. AddChild bd cur s = Inr s' \<and> length (devs s') = length (devs s) \<and>
           parts s' = parts s \<and>
           devs s' ! cur = (devs s ! cur)\<lparr>Name := synthesizedName (devs s ! bd) (devs s ! cur),
                                           Parent := Some bd\<rparr> \<and>
           devs s' ! bd = (devs s ! bd)\<lparr>Children := Children (devs s ! bd) @ [cur]\<rparr> \<and>
           (\<forall>i. i \<noteq> cur \<and> i \<noteq> bd \<longrightarrow> devs s' ! i = devs s ! i)"
  using assms
  by (auto simp: AddChild_def upd_dev_def Let_def synthesizedName_def getBasePartitionName_def)






text \<open>
  C4 does not hold of the code: the clone of a device does not have all its field
  values. \<^verbatim>\<open>Clone\<close> lists the fields it copies and leaves out \<^verbatim>\<open>PtType\<close> and \<^verbatim>\<open>Options\<close>. The
  clone of the disk of \<open>diskStore\<close>, whose partition table is \<^verbatim>\<open>gpt\<close>, has an empty
  \<^verbatim>\<open>PtType\<close>, and the clone of its second partition has lost the \<^verbatim>\<open>mkfs\<close> options.
\<close>

theorem Clone_drops_fields:
  "\<exists>s'. Clone 2 0 diskStore = Inr (3, s') \<and>
        PtType (devs diskStore ! 0) = ''gpt'' \<and> PtType (devs s' ! 3) = '''' \<and>
        Children (devs s' ! 3) = [4, 5] \<and>
        Options (devs diskStore ! 2) = ''-b 4096'' \<and> Options (devs s' ! 5) = ''''"
  by (simp add: diskStore_def Clone_literal_def new_dev_def upd_dev_def then_do_def zeroBlockDevice_def Let_def numeral_2_eq_2)





section \<open>Properties of NewStandardPartitions\<close>

lemma findFree_single:
  assumes "bd < length (devs s)" "PartTable (devs s ! bd) = [p]" "p < length (parts s)"
    "Number (parts s ! p) = 0" "FileSystem (parts s ! p) = ''free''" "sz \<le> PartSize (parts s ! p)"
  shows "findFree bd sz s = Inr (Some (length (parts s)), s\<lparr>parts := parts s @ [parts s ! p]\<rparr>)"
  using assms
  by (simp add: findFree_def PartedPartition_Clone_def new_part_def then_do_def Let_def)

lemma allocate_single:
  assumes d: "disk < length (devs s)" and t: "PartTable (devs s ! disk) = [p]"
    and p: "p < length (parts s)"
    and fr: "Number (parts s ! p) = 0" "FileSystem (parts s ! p) = ''free''"
    and sz: "sz \<le> PartSize (parts s ! p)"
    and nm: "Name literal = ''''"
  shows "\<exists>s'. allocate disk sz literal s = Inr s' \<and> allocate_post disk literal s s'"
proof -
  let ?L = "length (devs s)"
  let ?s1 = "s\<lparr>parts := parts s @ [parts s ! p]\<rparr>"
  let ?s2 = "?s1\<lparr>devs := devs ?s1 @ [literal]\<rparr>"
  have ff: "findFree disk sz s = Inr (Some (length (parts s)), ?s1)"
    using findFree_single[OF d t p fr sz] .
  have pre: "disk < length (devs ?s2)" "?L < length (devs ?s2)" "?L \<noteq> disk"
    "Name (devs ?s2 ! ?L) = ''''"
    using d nm by simp_all
  from AddChild_unnamed[OF pre]
  obtain s' where add: "AddChild disk ?L ?s2 = Inr s'"
    and len: "length (devs s') = length (devs ?s2)"
    and pts: "parts s' = parts ?s2"
    and new: "devs s' ! ?L = (devs ?s2 ! ?L)\<lparr>Name := synthesizedName (devs ?s2 ! disk) (devs ?s2 ! ?L),
                                           Parent := Some disk\<rparr>"
    and dsk: "devs s' ! disk = (devs ?s2 ! disk)\<lparr>Children := Children (devs ?s2 ! disk) @ [?L]\<rparr>"
    and oth: "\<forall>i. i \<noteq> ?L \<and> i \<noteq> disk \<longrightarrow> devs s' ! i = devs ?s2 ! i"
    by blast
  have run: "allocate disk sz literal s = Inr s'"
    using ff add by (simp add: allocate_def then_do_def new_dev_def AddFromFreePartition_def)
  have "allocate_post disk literal s s'"
    unfolding allocate_post_def
    using len pts new dsk oth d by (simp add: nth_append)
  with run show ?thesis by blast
qed


lemma literal_names: "Name bootLiteral = ''''" "Name swapLiteral = ''''" "Name (rootLiteral sz) = ''''"
  by (simp_all add: bootLiteral_def swapLiteral_def rootLiteral_def zeroBlockDevice_def)

text \<open>
  C2. For a disk that declares 10,000,000,000 bytes, whatever children and partition
  table it had, \<^verbatim>\<open>NewStandardPartitions\<close> returns, the children of the disk are exactly
  three new devices in this order: boot (vfat, \<^verbatim>\<open>/boot\<close>, 150,000,000 bytes), swap
  (256,000,000 bytes) and root (ext4, \<^verbatim>\<open>/\<close>, 9,594,000,000 bytes), each with
  \<^verbatim>\<open>MakePartition\<close> and \<^verbatim>\<open>FormatPartition\<close> set; their sizes add up to the size of the disk;
  and the table of the disk is one new row, free, from 0 to the size of the disk.
\<close>

theorem NewStandardPartitions_10G:
  assumes d: "disk < length (devs s)" and size: "Size (devs s ! disk) = 10000000000"
  shows "\<exists>s' boot swap root. NewStandardPartitions disk s = Inr s' \<and>
     Children (devs s' ! disk) = [boot, swap, root] \<and>
     length (devs s) \<le> boot \<and> boot < swap \<and> swap < root \<and> root < length (devs s') \<and>
     PartTable (devs s' ! disk) = [length (parts s)] \<and>
     parts s' ! length (parts s) =
       \<lparr>Number = 0, Start = 0, End = 10000000000, PartSize = 10000000000, FileSystem = ''free'',
        PartName = '''', Flags = ''''\<rparr> \<and>
     FsType (devs s' ! boot) = ''vfat'' \<and> MountPoint (devs s' ! boot) = ''/boot'' \<and>
     Size (devs s' ! boot) = 150000000 \<and>
     MakePartition (devs s' ! boot) \<and> FormatPartition (devs s' ! boot) \<and>
     FsType (devs s' ! swap) = ''swap'' \<and> Size (devs s' ! swap) = 256000000 \<and>
     MakePartition (devs s' ! swap) \<and> FormatPartition (devs s' ! swap) \<and>
     FsType (devs s' ! root) = ''ext4'' \<and> MountPoint (devs s' ! root) = ''/'' \<and>
     Size (devs s' ! root) = 9594000000 \<and>
     MakePartition (devs s' ! root) \<and> FormatPartition (devs s' ! root) \<and>
     Parent (devs s' ! boot) = Some disk \<and> Parent (devs s' ! swap) = Some disk \<and>
     Parent (devs s' ! root) = Some disk \<and>
     Size (devs s' ! boot) + Size (devs s' ! swap) + Size (devs s' ! root) = Size (devs s' ! disk) \<and>
     Size (devs s' ! disk) = 10000000000"
proof -
  let ?L = "length (devs s)"
  let ?r = "length (parts s)"
  let ?row = "\<lparr>Number = 0, Start = 0, End = 10000000000, PartSize = 10000000000,
               FileSystem = ''free'', PartName = '''', Flags = ''''\<rparr> :: PartedPartition"
  let ?st = "s\<lparr>parts := parts s @ [?row],
               devs := (devs s)[disk := (devs s ! disk)\<lparr>Children := [], PartTable := [?r]\<rparr>]\<rparr>"
  let ?rootSize = "9594000000 :: u64"
  have root: "(10000000000 :: u64) - bootSize - swapSize = ?rootSize"
    by (simp add: bootSize_def swapSize_def)
  have unfold: "NewStandardPartitions disk s =
      then_do (allocate disk bootSize bootLiteral ?st) (\<lambda>s.
      then_do (allocate disk swapSize swapLiteral s) (\<lambda>s.
      allocate disk ?rootSize (rootLiteral ?rootSize) s))"
    using d size
    by (simp add: NewStandardPartitions_def upd_dev_def new_part_def Let_def root)
  have st: "disk < length (devs ?st)" "PartTable (devs ?st ! disk) = [?r]" "?r < length (parts ?st)"
    "Number (parts ?st ! ?r) = 0" "FileSystem (parts ?st ! ?r) = ''free''"
    "PartSize (parts ?st ! ?r) = 10000000000" "length (devs ?st) = ?L"
    "Children (devs ?st ! disk) = []" "Size (devs ?st ! disk) = 10000000000"
    using d size by simp_all
  have b: "bootSize \<le> PartSize (parts ?st ! ?r)" by (simp add: bootSize_def)
  from allocate_single[OF st(1-5) b literal_names(1)]
  obtain s1 where a1: "allocate disk bootSize bootLiteral ?st = Inr s1"
    and p1: "allocate_post disk bootLiteral ?st s1" by blast
  from p1 st have s1: "disk < length (devs s1)" "PartTable (devs s1 ! disk) = [?r]"
    "?r < length (parts s1)" "Number (parts s1 ! ?r) = 0" "FileSystem (parts s1 ! ?r) = ''free''"
    "PartSize (parts s1 ! ?r) = 10000000000" "length (devs s1) = Suc ?L"
    "Children (devs s1 ! disk) = [?L]" "Size (devs s1 ! disk) = 10000000000"
    "parts s1 ! ?r = ?row"
    "devs s1 ! ?L = bootLiteral\<lparr>Name := synthesizedName (devs ?st ! disk) bootLiteral, Parent := Some disk\<rparr>"
    unfolding allocate_post_def by simp_all
  have w: "swapSize \<le> PartSize (parts s1 ! ?r)" using s1(6) by (simp add: swapSize_def)
  from allocate_single[OF s1(1-5) w literal_names(2)]
  obtain s2 where a2: "allocate disk swapSize swapLiteral s1 = Inr s2"
    and p2: "allocate_post disk swapLiteral s1 s2" by blast
  from p2 s1 d have s2: "disk < length (devs s2)" "PartTable (devs s2 ! disk) = [?r]"
    "?r < length (parts s2)" "Number (parts s2 ! ?r) = 0" "FileSystem (parts s2 ! ?r) = ''free''"
    "PartSize (parts s2 ! ?r) = 10000000000" "length (devs s2) = Suc (Suc ?L)"
    "Children (devs s2 ! disk) = [?L, Suc ?L]" "Size (devs s2 ! disk) = 10000000000"
    "parts s2 ! ?r = ?row"
    "devs s2 ! ?L = devs s1 ! ?L"
    "devs s2 ! Suc ?L = swapLiteral\<lparr>Name := synthesizedName (devs s1 ! disk) swapLiteral, Parent := Some disk\<rparr>"
    unfolding allocate_post_def by simp_all
  have rt: "?rootSize \<le> PartSize (parts s2 ! ?r)" using s2(6) by simp
  from allocate_single[OF s2(1-5) rt literal_names(3)]
  obtain s3 where a3: "allocate disk ?rootSize (rootLiteral ?rootSize) s2 = Inr s3"
    and p3: "allocate_post disk (rootLiteral ?rootSize) s2 s3" by blast
  from p3 s2 d have s3: "PartTable (devs s3 ! disk) = [?r]"
    "length (devs s3) = Suc (Suc (Suc ?L))"
    "Children (devs s3 ! disk) = [?L, Suc ?L, Suc (Suc ?L)]" "Size (devs s3 ! disk) = 10000000000"
    "parts s3 ! ?r = ?row"
    "devs s3 ! ?L = devs s2 ! ?L" "devs s3 ! Suc ?L = devs s2 ! Suc ?L"
    "devs s3 ! Suc (Suc ?L) = (rootLiteral ?rootSize)\<lparr>Name := synthesizedName (devs s2 ! disk) (rootLiteral ?rootSize), Parent := Some disk\<rparr>"
    unfolding allocate_post_def by simp_all
  have run: "NewStandardPartitions disk s = Inr s3"
    using unfold a1 a2 a3 by (simp add: then_do_def)
  have fields: "FsType (devs s3 ! ?L) = ''vfat'' \<and> MountPoint (devs s3 ! ?L) = ''/boot'' \<and>
     Size (devs s3 ! ?L) = 150000000 \<and>
     MakePartition (devs s3 ! ?L) \<and> FormatPartition (devs s3 ! ?L) \<and>
     FsType (devs s3 ! Suc ?L) = ''swap'' \<and> Size (devs s3 ! Suc ?L) = 256000000 \<and>
     MakePartition (devs s3 ! Suc ?L) \<and> FormatPartition (devs s3 ! Suc ?L) \<and>
     FsType (devs s3 ! Suc (Suc ?L)) = ''ext4'' \<and> MountPoint (devs s3 ! Suc (Suc ?L)) = ''/'' \<and>
     Size (devs s3 ! Suc (Suc ?L)) = 9594000000 \<and>
     MakePartition (devs s3 ! Suc (Suc ?L)) \<and> FormatPartition (devs s3 ! Suc (Suc ?L)) \<and>
     Parent (devs s3 ! ?L) = Some disk \<and> Parent (devs s3 ! Suc ?L) = Some disk \<and>
     Parent (devs s3 ! Suc (Suc ?L)) = Some disk"
    using s3(6-8) s2(11,12) s1(11)
    by (simp add: bootLiteral_def swapLiteral_def rootLiteral_def zeroBlockDevice_def
        bootSize_def swapSize_def)
  have sum: "Size (devs s3 ! ?L) + Size (devs s3 ! Suc ?L) + Size (devs s3 ! Suc (Suc ?L)) =
      Size (devs s3 ! disk)"
    using fields s3(4) by simp
  show ?thesis
    apply (rule exI[of _ s3])
    apply (rule exI[of _ ?L])
    apply (rule exI[of _ "Suc ?L"])
    apply (rule exI[of _ "Suc (Suc ?L)"])
    using run s3(1-5) fields sum
    apply simp
    done
qed

text \<open>
  The theorem at \<open>tenGigStore\<close>, whose disk had two partitions: they are gone, and the
  three standard partitions are the devices 3, 4 and 5.
\<close>

theorem NewStandardPartitions_10G_witness:
  "0 < length (devs tenGigStore) \<and> Size (devs tenGigStore ! 0) = 10000000000 \<and>
   Children (devs tenGigStore ! 0) = [1, 2] \<and>
   (\<exists>s'. NewStandardPartitions 0 tenGigStore = Inr s' \<and>
         Children (devs s' ! 0) = [3, 4, 5] \<and>
         map (\<lambda>c. MountPoint (devs s' ! c)) [3, 4, 5] = [''/boot'', '''', ''/''] \<and>
         map (\<lambda>c. Size (devs s' ! c)) [3, 4, 5] = [150000000, 256000000, 9594000000])"
proof -
  have h1: "0 < length (devs tenGigStore)"
    by (simp add: tenGigStore_def diskStore_def upd_dev_def)
  have h2: "Size (devs tenGigStore ! 0) = 10000000000"
    by (simp add: tenGigStore_def diskStore_def upd_dev_def)
  have h3: "Children (devs tenGigStore ! 0) = [1, 2]" "length (devs tenGigStore) = 3"
    by (simp_all add: tenGigStore_def diskStore_def upd_dev_def zeroBlockDevice_def)
  from NewStandardPartitions_10G[OF h1 h2] obtain s' boot swap root where
    r: "NewStandardPartitions 0 tenGigStore = Inr s'"
       "Children (devs s' ! 0) = [boot, swap, root]"
       "length (devs tenGigStore) \<le> boot" "boot < swap" "swap < root" "root < length (devs s')"
       "MountPoint (devs s' ! boot) = ''/boot''" "MountPoint (devs s' ! root) = ''/''"
       "Size (devs s' ! boot) = 150000000" "Size (devs s' ! swap) = 256000000"
       "Size (devs s' ! root) = 9594000000"
    by blast
  have ev: "NewStandardPartitions 0 tenGigStore = Inr s' \<Longrightarrow>
      Children (devs s' ! 0) = [3, 4, 5] \<and> MountPoint (devs s' ! 4) = ''''"
    by (auto simp add: NewStandardPartitions_def allocate_def findFree_def PartedPartition_Clone_def
        AddFromFreePartition_def AddChild_def new_dev_def new_part_def upd_dev_def then_do_def
        tenGigStore_def diskStore_def zeroBlockDevice_def bootLiteral_def swapLiteral_def
        rootLiteral_def bootSize_def swapSize_def Let_def)
  from ev[OF r(1)] r h1 h2 h3 show ?thesis by auto
qed

section \<open>Properties of the decoding\<close>

text \<open>
  C10 does not hold of the code. In the decoded listing the partition \<^verbatim>\<open>sda2\<close> is a child
  of the disk \<^verbatim>\<open>sda\<close> and its \<^verbatim>\<open>Parent\<close> is \<^verbatim>\<open>nil\<close>: the loop that assigns the parents is left
  at \<^verbatim>\<open>sda1\<close>, which is mounted. The volume \<^verbatim>\<open>luks\<close> is a child of \<^verbatim>\<open>sda2\<close> and its \<^verbatim>\<open>Parent\<close>
  is \<^verbatim>\<open>nil\<close>: only the children of the root devices are ever assigned one.
\<close>

theorem parseBlockDevicesDescriptor_parents:
  "links (parseBlockDevicesDescriptor pvs 20 listing emptyStore) =
     Some ([0], [(''sda'', [1, 2], None), (''sda1'', [], Some 0), (''sda2'', [3], None),
                 (''luks'', [], None)])"
  by (simp add: listing_def emptyStore_def links_def parseBlockDevicesDescriptor_def
      stringField_def getNextStrToken_def parseBlockDeviceType_def new_dev_def upd_dev_def
      zeroBlockDevice_def then_do_def Let_def eval_nat_numeral)

end
